theory Spec2Isabelle
  imports Main
begin

section \<open>Event lifecycle and reminder scheduling of the bot (bot.js)\<close>

text \<open>
  A shallow embedding of the event part of \<^verbatim>\<open>bot.js\<close>: the Redis store of events and of
  DM-tracking records, the BullMQ queue of delayed jobs, the button and modal handlers and
  the queue worker.

  Conventions of the model.
  \<^item> Instants and durations are JavaScript numbers holding whole milliseconds; they are
    modelled as \<open>int\<close> (every value involved is far below \<open>2 ^ 53\<close>).
  \<^item> \<open>Date.now()\<close> is the argument \<open>now\<close> of each operation.
  \<^item> Redis and BullMQ calls are taken to succeed. Discord calls may fail: the record
    \<open>env\<close> says which users can be reached and whether the event channel is found.
  \<^item> Every handler returns its reply as \<open>error + outcome\<close> together with the new state;
    the worker returns the line it logs.
  \<^item> Stored participants are the objects written by the handlers (\<open>{id, role, class}\<close>);
    the conversion of rosters of bare id strings written by older versions is outside
    the model.
  \<^item> A button press arrives as the custom id of the button, a string; the handler
    parses it as the source does.
\<close>

subsection \<open>Data\<close>

type_synonym user_id = string
type_synonym event_id = string
type_synonym msg_id = nat

record participant =
  p_id :: user_id
  p_role :: string
  p_class :: "string option"

record event =
  e_id :: event_id
  e_type :: string
  e_date :: int
  organizer :: user_id
  description :: string
  groupType :: string
  participants :: "participant list"
  messageId :: "msg_id option"

text \<open>The value stored by \<open>saveDMMessageForEvent\<close> under one field of the hash
  \<open>dm_messages:<eventId>\<close>.\<close>

record dm_data =
  d_userId :: user_id
  d_messageId :: msg_id
  d_messageType :: string
  d_timestamp :: int

text \<open>The field name \<open>`${userId}_${messageType}_${Date.now()}`\<close> of that hash.\<close>

type_synonym dm_field = "user_id \<times> string \<times> int"

text \<open>A pending (waiting or delayed) job of the queue \<open>event-reminders\<close>: its name, its
  data \<open>{eventId, participantId, reminderType, eventDate}\<close> (a cleanup job carries the
  event id only), its delay, and the instant at which it was added.\<close>

record job =
  j_name :: string
  j_eventId :: event_id
  j_participantId :: "user_id option"
  j_reminderType :: "string option"
  j_eventDate :: "int option"
  j_delay :: int
  j_added :: int

definition fire_time :: "job \<Rightarrow> int" where
  "fire_time j = j_added j + j_delay j"

record state =
  events :: "event_id \<Rightarrow> event option"
  dm_messages :: "event_id \<Rightarrow> (dm_field \<times> dm_data) list"
  reminderQueue :: "job list"
  channel_messages :: "msg_id set"
  inbox :: "(user_id \<times> msg_id) set"
  next_message :: msg_id

record env =
  reachable :: "user_id \<Rightarrow> bool"
  channel_found :: bool

datatype error =
    NotFound | AlreadyParticipating | EventFull | RoleFull | InvalidRole | InvalidClass
  | NotParticipating | Forbidden | ValidationError | ChannelNotFound
  | InvalidButton | NotForYou | EmbedRejected

datatype outcome =
    PromptRole | PromptClass | Joined | Withdrawn | PromptRoleChange | PromptClassChange
  | AlreadyHasRole | RoleUpdated | ShowTimeModal | Deleted | TimeChanged | Created
  | NoReply | ShowVerificationModal

subsection \<open>Redis management functions\<close>

definition saveEventToRedis :: "event \<Rightarrow> state \<Rightarrow> state" where
  "saveEventToRedis ev s = s\<lparr>events := (events s)(e_id ev := Some ev)\<rparr>"

definition getEventFromRedis :: "event_id \<Rightarrow> state \<Rightarrow> event option" where
  "getEventFromRedis eventId s = events s eventId"

definition deleteEventFromRedis :: "event_id \<Rightarrow> state \<Rightarrow> state" where
  "deleteEventFromRedis eventId s = s\<lparr>events := (events s)(eventId := None)\<rparr>"

text \<open>\<open>HSET\<close> on one hash: the field is overwritten when present, added otherwise.\<close>

fun hset :: "'k \<Rightarrow> 'v \<Rightarrow> ('k \<times> 'v) list \<Rightarrow> ('k \<times> 'v) list" where
  "hset k v [] = [(k, v)]"
| "hset k v ((k', v') # h) = (if k' = k then (k, v) # h else (k', v') # hset k v h)"

definition saveDMMessageForEvent ::
  "int \<Rightarrow> event_id \<Rightarrow> user_id \<Rightarrow> msg_id \<Rightarrow> string \<Rightarrow> state \<Rightarrow> state" where
  "saveDMMessageForEvent now eventId userId mid messageType s =
     s\<lparr>dm_messages := (dm_messages s)(eventId :=
          hset (userId, messageType, now)
            \<lparr>d_userId = userId, d_messageId = mid, d_messageType = messageType,
             d_timestamp = now\<rparr>
            (dm_messages s eventId))\<rparr>"

definition getDMMessagesForEvent :: "event_id \<Rightarrow> state \<Rightarrow> dm_data list" where
  "getDMMessagesForEvent eventId s = map snd (dm_messages s eventId)"

definition deleteDMMessagesForEvent :: "event_id \<Rightarrow> state \<Rightarrow> state" where
  "deleteDMMessagesForEvent eventId s = s\<lparr>dm_messages := (dm_messages s)(eventId := [])\<rparr>"

subsection \<open>Direct messages\<close>

text \<open>\<open>client.users.fetch(userId)\<close> followed by \<open>user.send(...)\<close>: the message gets a
  fresh id and lands in the user's inbox, or the call throws and nothing is sent.\<close>

definition userSend :: "env \<Rightarrow> user_id \<Rightarrow> state \<Rightarrow> msg_id option \<times> state" where
  "userSend en userId s =
     (if reachable en userId
      then (Some (next_message s),
            s\<lparr>inbox := insert (userId, next_message s) (inbox s),
              next_message := Suc (next_message s)\<rparr>)
      else (None, s))"

text \<open>The recurring block \<open>try { user = fetch; dm = user.send; saveDMMessageForEvent }
  catch { log }\<close> of the handlers.\<close>

definition notify :: "env \<Rightarrow> int \<Rightarrow> event_id \<Rightarrow> string \<Rightarrow> user_id \<Rightarrow> state \<Rightarrow> state" where
  "notify en now eventId messageType userId s =
     (case userSend en userId s of
        (Some mid, s') \<Rightarrow> saveDMMessageForEvent now eventId userId mid messageType s'
      | (None, s') \<Rightarrow> s')"

definition typesToPrune :: "string list" where
  "typesToPrune = [''registration'', ''withdrawal'', ''cancellation'', ''reminder'',
                   ''time_change'']"

text \<open>One element of \<open>prunePromises\<close>: the tracked message is deleted from the user's DM
  channel when its type is one to prune and the user can be fetched.\<close>

definition pruneOne :: "env \<Rightarrow> dm_data \<Rightarrow> state \<Rightarrow> state" where
  "pruneOne en dmData s =
     (if d_messageType dmData \<notin> set typesToPrune then s
      else if \<not> reachable en (d_userId dmData) then s
      else s\<lparr>inbox := inbox s - {(d_userId dmData, d_messageId dmData)}\<rparr>)"

definition pruneDMsForCompletedEvent :: "env \<Rightarrow> int \<Rightarrow> event_id \<Rightarrow> event \<Rightarrow> state \<Rightarrow> state" where
  "pruneDMsForCompletedEvent en now eventId ev s =
     (let dmMessages = getDMMessagesForEvent eventId s;
          currentTime = now;
          eventTime = e_date ev
      in if eventTime > currentTime then s
         else deleteDMMessagesForEvent eventId (fold (pruneOne en) dmMessages s))"

subsection \<open>Scheduling and cancelling jobs\<close>

definition reminderTimes :: "(int \<times> string) list" where
  "reminderTimes =
     [(24 * 60 * 60 * 1000, ''24 hours''),
      (12 * 60 * 60 * 1000, ''12 hours''),
      (1 * 60 * 60 * 1000, ''1 hour'')]"

text \<open>The job added by \<open>reminderQueue.add(jobName, {...}, {delay, ...})\<close>.\<close>

definition reminderJob :: "int \<Rightarrow> event_id \<Rightarrow> int \<Rightarrow> user_id \<Rightarrow> int \<times> string \<Rightarrow> job" where
  "reminderJob now eventId eventTimestamp participant reminder =
     \<lparr>j_name = ''reminder_'' @ eventId @ ''_'' @ participant @ ''_'' @ snd reminder,
      j_eventId = eventId,
      j_participantId = Some participant,
      j_reminderType = Some (snd reminder),
      j_eventDate = Some eventTimestamp,
      j_delay = (eventTimestamp - fst reminder) - now,
      j_added = now\<rparr>"

text \<open>The two nested loops of \<open>scheduleReminders\<close>: the jobs pushed to
  \<open>reminderPromises\<close>, in order.\<close>

fun reminderPromises :: "int \<Rightarrow> event_id \<Rightarrow> int \<Rightarrow> user_id list \<Rightarrow> job list" where
  "reminderPromises now eventId eventTimestamp [] = []"
| "reminderPromises now eventId eventTimestamp (participant # rest) =
     map (reminderJob now eventId eventTimestamp participant)
       (filter (\<lambda>reminder. eventTimestamp - fst reminder > now) reminderTimes)
     @ reminderPromises now eventId eventTimestamp rest"

definition scheduleReminders :: "int \<Rightarrow> event_id \<Rightarrow> int \<Rightarrow> user_id list \<Rightarrow> state \<Rightarrow> state" where
  "scheduleReminders now eventId eventDate ps s =
     s\<lparr>reminderQueue := reminderQueue s @ reminderPromises now eventId eventDate ps\<rparr>"

definition cancelEventReminders :: "event_id \<Rightarrow> state \<Rightarrow> state" where
  "cancelEventReminders eventId s =
     s\<lparr>reminderQueue := filter (\<lambda>j. j_eventId j \<noteq> eventId) (reminderQueue s)\<rparr>"

definition cancelParticipantReminders :: "event_id \<Rightarrow> user_id \<Rightarrow> state \<Rightarrow> state" where
  "cancelParticipantReminders eventId participantId s =
     s\<lparr>reminderQueue :=
         filter (\<lambda>j. \<not> (j_eventId j = eventId \<and> j_participantId j = Some participantId))
           (reminderQueue s)\<rparr>"

definition cleanupJob :: "int \<Rightarrow> event_id \<Rightarrow> int \<Rightarrow> job" where
  "cleanupJob now eventId delay =
     \<lparr>j_name = ''cleanup_'' @ eventId, j_eventId = eventId, j_participantId = None,
      j_reminderType = None, j_eventDate = None, j_delay = delay, j_added = now\<rparr>"

definition scheduleEventCleanup :: "int \<Rightarrow> event_id \<Rightarrow> int \<Rightarrow> state \<Rightarrow> state" where
  "scheduleEventCleanup now eventId eventDate s =
     (let delay = eventDate - now + (5 * 60 * 1000)
      in if delay > 0
         then s\<lparr>reminderQueue := reminderQueue s @ [cleanupJob now eventId delay]\<rparr>
         else s)"

text \<open>\<open>job.name.startsWith('cleanup_')\<close>\<close>

definition startsWith :: "string \<Rightarrow> string \<Rightarrow> bool" where
  "startsWith str pre = (take (length pre) str = pre)"

subsection \<open>Custom ids of buttons\<close>

text \<open>\<open>customId.split('_')\<close> with the destructuring \<open>[action, ...rest]\<close>: the first
  segment and the list of the others.\<close>

fun split_us :: "string \<Rightarrow> string \<times> string list" where
  "split_us [] = ([], [])"
| "split_us (c # cs) =
     (case split_us cs of
        (x, xs) \<Rightarrow> if c = CHR ''_'' then ([], x # xs) else (c # x, xs))"

text \<open>\<open>parts.join('_')\<close>; also the template literals that put \<open>_\<close> between their
  parts, such as \<open>`role_tank_${eventId}`\<close>.\<close>

fun join_us :: "string list \<Rightarrow> string" where
  "join_us [] = []"
| "join_us [x] = x"
| "join_us (x # y # ys) = x @ CHR ''_'' # join_us (y # ys)"

text \<open>\<open>rest.indexOf(x)\<close>, with \<open>None\<close> for \<open>-1\<close>.\<close>

definition indexOf :: "'a \<Rightarrow> 'a list \<Rightarrow> nat option" where
  "indexOf x xs =
     (if x \<in> set xs then Some (length (takeWhile (\<lambda>y. y \<noteq> x) xs)) else None)"

text \<open>\<open>.replace(/_/g, ' ')\<close>\<close>

definition underscoresToSpaces :: "string \<Rightarrow> string" where
  "underscoresToSpaces str = map (\<lambda>c. if c = CHR ''_'' then CHR '' '' else c) str"

text \<open>\<open>className.replace(/\s+/g, '_')\<close>: every run of white space becomes one
  underscore (the white space among the 256 characters of the model: space, tab, line
  feed, vertical tab, form feed, carriage return, no-break space).\<close>

definition whitespace :: "char \<Rightarrow> bool" where
  "whitespace c =
     (c \<in> set [CHR '' '', CHR 0x09, CHR 0x0A, CHR 0x0B, CHR 0x0C, CHR 0x0D, CHR 0xA0])"

function replaceSpaces :: "string \<Rightarrow> string" where
  "replaceSpaces [] = []"
| "replaceSpaces (c # cs) =
     (if whitespace c then CHR ''_'' # replaceSpaces (dropWhile whitespace cs)
      else c # replaceSpaces cs)"
  by pat_completeness auto
termination
  by (relation "measure length") (auto simp: less_Suc_eq_le length_dropWhile_le)

text \<open>The result \<open>{action, eventId, role, className}\<close> of \<open>parseButtonInteraction\<close>;
  \<open>None\<close> is \<open>undefined\<close>.\<close>

record parsed =
  b_action :: string
  b_eventId :: string
  b_role :: "string option"
  b_className :: "string option"

text \<open>\<open>parseButtonInteraction\<close> (lines 1436-1464); \<open>Inl\<close> carries the message of the
  error it throws. \<open>rest[0]\<close> is \<open>undefined\<close> for an empty \<open>rest\<close>.\<close>

definition first :: "'a list \<Rightarrow> 'a option" where
  "first xs = (case xs of [] \<Rightarrow> None | x # _ \<Rightarrow> Some x)"

definition parseButtonInteraction :: "string \<Rightarrow> string + parsed" where
  "parseButtonInteraction customId =
     (case split_us customId of
        (action, rest) \<Rightarrow>
          if action = ''role'' \<or> action = ''rolechange'' then
            Inr \<lparr>b_action = action, b_eventId = join_us (drop 1 rest),
                 b_role = first rest, b_className = None\<rparr>
          else if action = ''class'' \<or> action = ''rolechangeclass'' then
            (case indexOf ''event'' rest of
               None \<Rightarrow> Inl ''Invalid button ID format: missing event identifier''
             | Some eventIndex \<Rightarrow>
                 Inr \<lparr>b_action = action, b_eventId = join_us (drop eventIndex rest),
                      b_role = first rest,
                      b_className =
                        Some (underscoresToSpaces (join_us (drop 1 (take eventIndex rest))))\<rparr>)
          else
            Inr \<lparr>b_action = action, b_eventId = join_us rest, b_role = None,
                 b_className = None\<rparr>)"

text \<open>The custom ids that the bot gives to its buttons: those of the announcement
  (\<open>createEventButtons\<close>: \<open>participate_\<close>, \<open>withdraw_\<close>, \<open>changeRole_\<close>, \<open>changeTime_\<close>,
  \<open>delete_\<close> followed by the event id), of the role prompt (\<open>createRoleButtons\<close>), of
  the class prompt (\<open>createClassButtons\<close>), and of the two prompts of a role change.\<close>

definition eventButtonId :: "string \<Rightarrow> event_id \<Rightarrow> string" where
  "eventButtonId action eventId = join_us [action, eventId]"

definition roleButtonId :: "string \<Rightarrow> event_id \<Rightarrow> string" where
  "roleButtonId role eventId = join_us [''role'', role, eventId]"

definition classButtonId :: "string \<Rightarrow> string \<Rightarrow> event_id \<Rightarrow> string" where
  "classButtonId role className eventId =
     join_us [''class'', role, replaceSpaces className, eventId]"

definition roleChangeButtonId :: "string \<Rightarrow> event_id \<Rightarrow> string" where
  "roleChangeButtonId role eventId = join_us [''rolechange'', role, eventId]"

definition roleChangeClassButtonId :: "string \<Rightarrow> string \<Rightarrow> event_id \<Rightarrow> string" where
  "roleChangeClassButtonId role className eventId =
     join_us [''rolechangeclass'', role, replaceSpaces className, eventId]"

definition createEventButtons :: "event_id \<Rightarrow> string list" where
  "createEventButtons eventId =
     [eventButtonId ''participate'' eventId, eventButtonId ''withdraw'' eventId,
      eventButtonId ''changeRole'' eventId, eventButtonId ''changeTime'' eventId,
      eventButtonId ''delete'' eventId]"

definition createRoleButtons :: "event_id \<Rightarrow> string list" where
  "createRoleButtons eventId =
     [roleButtonId ''tank'' eventId, roleButtonId ''healer'' eventId,
      roleButtonId ''dps'' eventId, roleButtonId ''blue_mage'' eventId]"

definition createRoleChangeButtons :: "event_id \<Rightarrow> string list" where
  "createRoleChangeButtons eventId =
     [roleChangeButtonId ''tank'' eventId, roleChangeButtonId ''healer'' eventId,
      roleChangeButtonId ''dps'' eventId]"

subsection \<open>Roles, classes and quotas\<close>

definition validRoles :: "string list" where
  "validRoles = [''tank'', ''healer'', ''dps'', ''blue_mage'']"

definition classRoles :: "string list" where
  "classRoles = [''tank'', ''healer'', ''dps'']"

definition ROLE_LIMITS :: "string \<Rightarrow> nat option" where
  "ROLE_LIMITS role =
     (if role = ''tank'' then Some 2
      else if role = ''healer'' then Some 2
      else if role = ''dps'' then Some 4
      else None)"

definition ROLE_CLASS :: "string \<Rightarrow> string list option" where
  "ROLE_CLASS role =
     (if role = ''tank'' then Some [''Paladin'', ''Warrior'', ''Dark Knight'', ''Gunbreaker'']
      else if role = ''healer'' then Some [''White Mage'', ''Scholar'', ''Astrologian'', ''Sage'']
      else if role = ''dps'' then
        Some [''Monk'', ''Dragoon'', ''Ninja'', ''Samurai'', ''Reaper'', ''Bard'', ''Machinist'',
              ''Dancer'', ''Black Mage'', ''Summoner'', ''Red Mage'', ''Pictomancer'', ''Viper'']
      else if role = ''blue_mage'' then Some []
      else None)"

text \<open>\<open>roleCount >= ROLE_LIMITS[role]\<close>: a comparison with \<open>undefined\<close> is false.\<close>

definition limitReached :: "string \<Rightarrow> nat \<Rightarrow> bool" where
  "limitReached role roleCount =
     (case ROLE_LIMITS role of Some limit \<Rightarrow> roleCount \<ge> limit | None \<Rightarrow> False)"

text \<open>\<open>role === 'blue_mage' || !ROLE_CLASS[role] || ROLE_CLASS[role].length === 0\<close>\<close>

definition noClasses :: "string \<Rightarrow> bool" where
  "noClasses role =
     (role = ''blue_mage'' \<or> (case ROLE_CLASS role of None \<Rightarrow> True | Some cs \<Rightarrow> cs = []))"

text \<open>\<open>!ROLE_CLASS[role] || !ROLE_CLASS[role].includes(className)\<close>\<close>

definition invalidClass :: "string \<Rightarrow> string \<Rightarrow> bool" where
  "invalidClass role className =
     (case ROLE_CLASS role of None \<Rightarrow> True | Some cs \<Rightarrow> className \<notin> set cs)"

text \<open>The rows of class buttons, five buttons to a row, each button given by its custom
  id; \<open>null\<close> for a role without classes.\<close>

fun rowsOf :: "nat \<Rightarrow> 'a list \<Rightarrow> 'a list list" where
  "rowsOf buttonsPerRow classes =
     (if buttonsPerRow = 0 \<or> classes = [] then []
      else take buttonsPerRow classes # rowsOf buttonsPerRow (drop buttonsPerRow classes))"

declare rowsOf.simps [simp del]

definition createClassButtons :: "string \<Rightarrow> event_id \<Rightarrow> string list list option" where
  "createClassButtons role eventId =
     (case ROLE_CLASS role of
        None \<Rightarrow> None
      | Some classes \<Rightarrow>
          if classes = [] then None
          else Some (rowsOf 5 (map (\<lambda>className. classButtonId role className eventId) classes)))"

definition createRoleChangeClassButtons :: "string \<Rightarrow> event_id \<Rightarrow> string list list option" where
  "createRoleChangeClassButtons role eventId =
     (case ROLE_CLASS role of
        None \<Rightarrow> None
      | Some classes \<Rightarrow>
          if classes = [] then None
          else Some (rowsOf 5
                 (map (\<lambda>className. roleChangeClassButtonId role className eventId) classes)))"

text \<open>\<open>classButtonRows && classButtonRows.length > 0\<close>\<close>

definition hasRows :: "string list list option \<Rightarrow> bool" where
  "hasRows classButtonRows =
     (case classButtonRows of None \<Rightarrow> False | Some rows \<Rightarrow> length rows > 0)"

subsection \<open>Button interactions\<close>

text \<open>What the handlers read from an interaction: the acting user, whether the member
  holds the authorized role (\<open>hasAuthorizedRole(interaction.member)\<close>), and the message
  the button sits on.\<close>

record interaction =
  i_user :: user_id
  i_hasRole :: bool
  i_message :: "msg_id option"

definition isEventOrganizerOrAdmin :: "interaction \<Rightarrow> event \<Rightarrow> bool" where
  "isEventOrganizerOrAdmin ia ev = (i_user ia = organizer ev \<or> i_hasRole ia)"

text \<open>\<open>event.participants.some(p => p.id === userId)\<close>\<close>

definition participating :: "user_id \<Rightarrow> event \<Rightarrow> bool" where
  "participating userId ev = list_ex (\<lambda>p. p_id p = userId) (participants ev)"

text \<open>\<open>event.participants.push({id, role, class})\<close>, \<open>saveEventToRedis\<close>,
  \<open>scheduleReminders(eventId, event.date, [userId])\<close>.\<close>

definition pushParticipant ::
  "int \<Rightarrow> event_id \<Rightarrow> event \<Rightarrow> user_id \<Rightarrow> string \<Rightarrow> string option \<Rightarrow> state \<Rightarrow> state" where
  "pushParticipant now eventId ev userId role cls s =
     (let ev' = ev\<lparr>participants :=
                    participants ev @ [\<lparr>p_id = userId, p_role = role, p_class = cls\<rparr>]\<rparr>
      in scheduleReminders now eventId (e_date ev') [userId] (saveEventToRedis ev' s))"

text \<open>\<open>participant = event.participants.find(p => p.id === userId)\<close> followed by
  assignments to \<open>participant.role\<close> and \<open>participant.class\<close>: the first record of
  that user is changed where it stands.\<close>

fun assignFound :: "user_id \<Rightarrow> string \<Rightarrow> string option \<Rightarrow> participant list \<Rightarrow> participant list" where
  "assignFound userId role cls [] = []"
| "assignFound userId role cls (p # ps) =
     (if p_id p = userId then p\<lparr>p_role := role, p_class := cls\<rparr> # ps
      else p # assignFound userId role cls ps)"

text \<open>The branches of \<open>handleButtonInteraction\<close>, one definition for each action, in the
  order of the source; each takes the event loaded from the store. The updates of the
  announcement (\<open>msg.edit\<close>) change nothing that the model records and are left out.

  \<open>action === 'withdraw'\<close> (lines 1507-1545).\<close>

definition withdrawAction ::
  "env \<Rightarrow> int \<Rightarrow> event_id \<Rightarrow> interaction \<Rightarrow> event \<Rightarrow> state \<Rightarrow> (error + outcome) \<times> state" where
  "withdrawAction en now eventId ia ev s =
     (let userId = i_user ia;
          beforeLen = length (participants ev);
          ev' = ev\<lparr>participants := filter (\<lambda>p. p_id p \<noteq> userId) (participants ev)\<rparr>
      in if length (participants ev') = beforeLen then (Inl NotParticipating, s)
         else (Inr Withdrawn,
               notify en now eventId ''withdrawal'' userId
                 (cancelParticipantReminders eventId userId (saveEventToRedis ev' s))))"

text \<open>\<open>action === 'changeRole'\<close> (lines 1548-1558).\<close>

definition changeRoleAction ::
  "interaction \<Rightarrow> event \<Rightarrow> state \<Rightarrow> (error + outcome) \<times> state" where
  "changeRoleAction ia ev s =
     (if \<not> participating (i_user ia) ev then (Inl NotParticipating, s)
      else (Inr PromptRoleChange, s))"

text \<open>\<open>action === 'participate'\<close> (lines 1561-1577).\<close>

definition participateAction ::
  "interaction \<Rightarrow> event \<Rightarrow> state \<Rightarrow> (error + outcome) \<times> state" where
  "participateAction ia ev s =
     (if participating (i_user ia) ev then (Inl AlreadyParticipating, s)
      else if length (participants ev) \<ge> 8 then (Inl EventFull, s)
      else (Inr PromptRole, s))"

text \<open>\<open>action === 'role'\<close> (lines 1580-1668): the join of a role without classes, or the
  prompt for a class.\<close>

definition roleAction ::
  "env \<Rightarrow> int \<Rightarrow> event_id \<Rightarrow> string \<Rightarrow> interaction \<Rightarrow> event \<Rightarrow> state
     \<Rightarrow> (error + outcome) \<times> state" where
  "roleAction en now eventId role ia ev s =
     (let userId = i_user ia in
      if role \<notin> set validRoles then (Inl InvalidRole, s)
      else if participating userId ev then (Inl AlreadyParticipating, s)
      else if length (participants ev) \<ge> 8 then (Inl EventFull, s)
      else
        let roleCount = length (filter (\<lambda>p. p_role p = role) (participants ev)) in
        if groupType ev = ''standard'' \<and> limitReached role roleCount then (Inl RoleFull, s)
        else if noClasses role then
          (Inr Joined,
           notify en now eventId ''registration'' userId
             (pushParticipant now eventId ev userId role
                (if role = ''blue_mage'' then Some ''Blue Mage'' else None) s))
        else if hasRows (createClassButtons role eventId) then (Inr PromptClass, s)
        else (Inr Joined, pushParticipant now eventId ev userId role None s))"

text \<open>\<open>action === 'class'\<close> (lines 1670-1749): the join with a role and a class.\<close>

definition classAction ::
  "env \<Rightarrow> int \<Rightarrow> event_id \<Rightarrow> string \<Rightarrow> string \<Rightarrow> interaction \<Rightarrow> event \<Rightarrow> state
     \<Rightarrow> (error + outcome) \<times> state" where
  "classAction en now eventId role className ia ev s =
     (let userId = i_user ia in
      if role \<notin> set classRoles then (Inl InvalidRole, s)
      else if invalidClass role className then (Inl InvalidClass, s)
      else if participating userId ev then (Inl AlreadyParticipating, s)
      else if length (participants ev) \<ge> 8 then (Inl EventFull, s)
      else
        let roleCount = length (filter (\<lambda>p. p_role p = role) (participants ev)) in
        if groupType ev = ''standard'' \<and> limitReached role roleCount then (Inl RoleFull, s)
        else
          (Inr Joined,
           notify en now eventId ''registration'' userId
             (pushParticipant now eventId ev userId role (Some className) s)))"

text \<open>The assignments to the found participant, then \<open>saveEventToRedis\<close>.\<close>

definition assignRole ::
  "event \<Rightarrow> user_id \<Rightarrow> string \<Rightarrow> string option \<Rightarrow> state \<Rightarrow> state" where
  "assignRole ev userId role cls s =
     saveEventToRedis (ev\<lparr>participants := assignFound userId role cls (participants ev)\<rparr>) s"

text \<open>\<open>action === 'rolechange'\<close> (lines 1752-1842).\<close>

definition roleChangeAction ::
  "env \<Rightarrow> int \<Rightarrow> event_id \<Rightarrow> string \<Rightarrow> interaction \<Rightarrow> event \<Rightarrow> state
     \<Rightarrow> (error + outcome) \<times> state" where
  "roleChangeAction en now eventId role ia ev s =
     (let userId = i_user ia in
      if role \<notin> set validRoles then (Inl InvalidRole, s)
      else
        case find (\<lambda>p. p_id p = userId) (participants ev) of
          None \<Rightarrow> (Inl NotParticipating, s)
        | Some participant \<Rightarrow>
            if p_role participant = role then
              (if (case ROLE_CLASS role of None \<Rightarrow> False | Some cs \<Rightarrow> length cs > 0)
               then (Inr PromptClassChange, s)
               else (Inr AlreadyHasRole, s))
            else
              let roleCount =
                    length (filter (\<lambda>p. p_role p = role \<and> p_id p \<noteq> userId) (participants ev))
              in
              if groupType ev = ''standard'' \<and> limitReached role roleCount then (Inl RoleFull, s)
              else if noClasses role then
                (Inr RoleUpdated,
                 notify en now eventId ''role_change'' userId
                   (assignRole ev userId role
                      (if role = ''blue_mage'' then Some ''Blue Mage'' else None) s))
              else if hasRows (createRoleChangeClassButtons role eventId) then (Inr PromptClassChange, s)
              else (Inr RoleUpdated, assignRole ev userId role None s))"

text \<open>\<open>action === 'rolechangeclass'\<close> (lines 1845-1916).\<close>

definition roleChangeClassAction ::
  "env \<Rightarrow> int \<Rightarrow> event_id \<Rightarrow> string \<Rightarrow> string \<Rightarrow> interaction \<Rightarrow> event \<Rightarrow> state
     \<Rightarrow> (error + outcome) \<times> state" where
  "roleChangeClassAction en now eventId role className ia ev s =
     (let userId = i_user ia in
      if role \<notin> set classRoles then (Inl InvalidRole, s)
      else if invalidClass role className then (Inl InvalidClass, s)
      else
        case find (\<lambda>p. p_id p = userId) (participants ev) of
          None \<Rightarrow> (Inl NotParticipating, s)
        | Some participant \<Rightarrow>
            let roleCount =
                  length (filter (\<lambda>p. p_role p = role \<and> p_id p \<noteq> userId) (participants ev))
            in
            if groupType ev = ''standard'' \<and> limitReached role roleCount then (Inl RoleFull, s)
            else
              (Inr RoleUpdated,
               notify en now eventId ''role_change'' userId
                 (assignRole ev userId role (Some className) s)))"

text \<open>\<open>action === 'changeTime'\<close> (lines 1919-1927).\<close>

definition changeTimeAction ::
  "interaction \<Rightarrow> event \<Rightarrow> state \<Rightarrow> (error + outcome) \<times> state" where
  "changeTimeAction ia ev s =
     (if \<not> isEventOrganizerOrAdmin ia ev then (Inl Forbidden, s)
      else (Inr ShowTimeModal, s))"

text \<open>The participants to notify on deletion and on a time change:
  \<open>event.participants.filter(participant => participant.id !== event.organizer)\<close>.\<close>

definition recipients :: "event \<Rightarrow> user_id list" where
  "recipients ev = map p_id (filter (\<lambda>p. p_id p \<noteq> organizer ev) (participants ev))"

text \<open>\<open>action === 'delete'\<close> (lines 1929-1984). The cancellation notices are sent one
  after the other here; the source sends them in parallel, which only changes the ids
  the messages get.\<close>

definition deleteAction ::
  "env \<Rightarrow> int \<Rightarrow> event_id \<Rightarrow> interaction \<Rightarrow> event \<Rightarrow> state \<Rightarrow> (error + outcome) \<times> state" where
  "deleteAction en now eventId ia ev s =
     (if \<not> isEventOrganizerOrAdmin ia ev then (Inl Forbidden, s)
      else
        let s1 = cancelEventReminders eventId s;
            s2 = fold (notify en now eventId ''cancellation'') (recipients ev) s1;
            s3 = deleteEventFromRedis eventId s2;
            s4 = (case i_message ia of
                    Some m \<Rightarrow> s3\<lparr>channel_messages := channel_messages s3 - {m}\<rparr>
                  | None \<Rightarrow> s3)
        in (Inr Deleted, s4))"

text \<open>\<open>handleButtonInteraction\<close> from the destructuring of the parsed id (line 1491) on:
  the event is loaded first, and a missing event ends the interaction; then come the
  branches. An action that is none of theirs falls through every branch. A role or class
  name that is \<open>undefined\<close> is in none of the lists of the validations.\<close>

definition handleParsed ::
  "env \<Rightarrow> int \<Rightarrow> parsed \<Rightarrow> interaction \<Rightarrow> state \<Rightarrow> (error + outcome) \<times> state" where
  "handleParsed en now p ia s =
     (let action = b_action p; eventId = b_eventId p in
      case getEventFromRedis eventId s of
        None \<Rightarrow> (Inl NotFound, s)
      | Some ev \<Rightarrow>
          if action = ''withdraw'' then withdrawAction en now eventId ia ev s
          else if action = ''changeRole'' then changeRoleAction ia ev s
          else if action = ''participate'' then participateAction ia ev s
          else if action = ''role'' then
            (case b_role p of
               None \<Rightarrow> (Inl InvalidRole, s)
             | Some role \<Rightarrow> roleAction en now eventId role ia ev s)
          else if action = ''class'' then
            (case b_role p of
               None \<Rightarrow> (Inl InvalidRole, s)
             | Some role \<Rightarrow>
                 (case b_className p of
                    None \<Rightarrow>
                      (if role \<notin> set classRoles then (Inl InvalidRole, s)
                       else (Inl InvalidClass, s))
                  | Some className \<Rightarrow> classAction en now eventId role className ia ev s))
          else if action = ''rolechange'' then
            (case b_role p of
               None \<Rightarrow> (Inl InvalidRole, s)
             | Some role \<Rightarrow> roleChangeAction en now eventId role ia ev s)
          else if action = ''rolechangeclass'' then
            (case b_role p of
               None \<Rightarrow> (Inl InvalidRole, s)
             | Some role \<Rightarrow>
                 (case b_className p of
                    None \<Rightarrow>
                      (if role \<notin> set classRoles then (Inl InvalidRole, s)
                       else (Inl InvalidClass, s))
                  | Some className \<Rightarrow>
                      roleChangeClassAction en now eventId role className ia ev s))
          else if action = ''changeTime'' then changeTimeAction ia ev s
          else if action = ''delete'' then deleteAction en now eventId ia ev s
          else (Inr NoReply, s))"

text \<open>\<open>handleButtonInteraction\<close> (lines 1466-1985) on the custom id of the pressed
  button. A verification button (\<open>verifyMember_<memberId>\<close>) is answered without a
  look at the events. An id that the parser refuses is answered with the parser's
  message.\<close>

definition handleButtonInteraction ::
  "env \<Rightarrow> int \<Rightarrow> string \<Rightarrow> interaction \<Rightarrow> state \<Rightarrow> (error + outcome) \<times> state" where
  "handleButtonInteraction en now customId ia s =
     (if startsWith customId ''verifyMember_'' then
        (let memberId = drop (length ''verifyMember_'') customId in
         if i_user ia \<noteq> memberId then (Inl NotForYou, s)
         else (Inr ShowVerificationModal, s))
      else
        case parseButtonInteraction customId of
          Inl message \<Rightarrow> (Inl InvalidButton, s)
        | Inr p \<Rightarrow> handleParsed en now p ia s)"

subsection \<open>Creating an event and changing its time\<close>

text \<open>\<open>validateDateTime\<close>: the instant denoted by the date, time and timezone strings is
  the argument \<open>parsed\<close> (\<open>None\<close> for a malformed date or time, an unknown timezone or an
  invalid date); the function then refuses an instant that is not after now.\<close>

definition validateDateTime :: "int \<Rightarrow> int option \<Rightarrow> int option" where
  "validateDateTime now parsed =
     (case parsed of
        None \<Rightarrow> None
      | Some eventDate \<Rightarrow> if eventDate \<le> now then None else Some eventDate)"

text \<open>A number as JavaScript prints it in a template literal: the decimal digits of a
  whole number, with a sign when it is negative.\<close>

function digits :: "nat \<Rightarrow> string" where
  "digits n =
     (if n < 10 then [''0123456789'' ! n]
      else digits (n div 10) @ [''0123456789'' ! (n mod 10)])"
  by pat_completeness auto
termination
  by (relation "measure id") auto

declare digits.simps [simp del]

definition showNumber :: "int \<Rightarrow> string" where
  "showNumber i = (if i < 0 then CHR ''-'' # digits (nat (- i)) else digits (nat i))"

text \<open>The options of the command \<open>/create-event\<close>, the result of \<open>checkAuthorization\<close>
  for its user, and the suffix \<open>Math.random().toString(36).substr(2, 9)\<close> drawn for
  the id of the event.\<close>

record creation =
  c_user :: user_id
  c_authorized :: bool
  c_type :: string
  c_group_type :: "string option"
  c_parsed :: "int option"
  c_description :: string
  c_random :: string

text \<open>\<open>`event_${Date.now()}_${random}`\<close>\<close>

definition newEventId :: "int \<Rightarrow> string \<Rightarrow> event_id" where
  "newEventId now random = ''event_'' @ showNumber now @ CHR ''_'' # random"

text \<open>\<open>handleCreateEvent\<close> (lines 1348-1433). \<open>createEventEmbed\<close> puts the description
  in a field of the embed, and the embed builder throws on a field value of more than
  1024 characters (UTF-16 units in the source, characters here): the command then ends
  before anything is stored. Sending the announcement to a channel that was found is
  taken to succeed.\<close>

definition handleCreateEvent :: "env \<Rightarrow> int \<Rightarrow> creation \<Rightarrow> state \<Rightarrow> (error + outcome) \<times> state" where
  "handleCreateEvent en now c s =
     (if \<not> c_authorized c then (Inl Forbidden, s)
      else
        case validateDateTime now (c_parsed c) of
          None \<Rightarrow> (Inl ValidationError, s)
        | Some eventDate \<Rightarrow>
            if length (c_description c) > 1024 then (Inl EmbedRejected, s)
            else if \<not> channel_found en then (Inl ChannelNotFound, s)
            else
              let eventId = newEventId now (c_random c);
                  m = next_message s;
                  s1 = s\<lparr>channel_messages := insert m (channel_messages s),
                         next_message := Suc m\<rparr>;
                  ev = \<lparr>e_id = eventId, e_type = c_type c, e_date = eventDate,
                        organizer = c_user c, description = c_description c,
                        groupType = (case c_group_type c of None \<Rightarrow> ''standard'' | Some g \<Rightarrow> g),
                        participants = [], messageId = Some m\<rparr>
              in (Inr Created,
                  scheduleEventCleanup now eventId eventDate (saveEventToRedis ev s1)))"

text \<open>The branch \<open>changeTimeModal_\<close> of \<open>handleModalSubmission\<close>.\<close>

definition handleModalSubmission ::
  "env \<Rightarrow> int \<Rightarrow> event_id \<Rightarrow> interaction \<Rightarrow> int option \<Rightarrow> state \<Rightarrow> (error + outcome) \<times> state" where
  "handleModalSubmission en now eventId ia parsed s =
     (case getEventFromRedis eventId s of
        None \<Rightarrow> (Inl NotFound, s)
      | Some ev \<Rightarrow>
          if \<not> isEventOrganizerOrAdmin ia ev then (Inl Forbidden, s)
          else
            (case validateDateTime now parsed of
               None \<Rightarrow> (Inl ValidationError, s)
             | Some newEventDate \<Rightarrow>
                 (let ev' = ev\<lparr>e_date := newEventDate\<rparr>;
                      s1 = saveEventToRedis ev' s;
                      s2 = cancelEventReminders eventId s1;
                      s3 = scheduleReminders now eventId newEventDate
                             (map p_id (participants ev')) s2;
                      s4 = fold (notify en now eventId ''time_change'') (recipients ev') s3
                  in (Inr TimeChanged, s4))))"

subsection \<open>The queue worker\<close>

text \<open>The worker of the queue (lines 1988-2067), with the line it logs last as its
  result. A job named \<open>cleanup_...\<close> takes the first branch, any other job is a
  reminder.\<close>

datatype worker_log =
    CleanupDone | CleanupNoEvent | SkipNoEvent | SkipNotParticipating | ReminderSent
  | ReminderFailed

definition reminderWorker :: "env \<Rightarrow> int \<Rightarrow> job \<Rightarrow> state \<Rightarrow> worker_log \<times> state" where
  "reminderWorker en now jb s =
     (let eventId = j_eventId jb; participantId = j_participantId jb in
      if startsWith (j_name jb) ''cleanup_'' then
        (case getEventFromRedis eventId s of
           Some ev \<Rightarrow>
             let s1 = pruneDMsForCompletedEvent en now eventId ev s;
                 s2 = (if channel_found en
                       then (case messageId ev of
                               Some m \<Rightarrow> s1\<lparr>channel_messages := channel_messages s1 - {m}\<rparr>
                             | None \<Rightarrow> s1)
                       else s1)
             in (CleanupDone, deleteEventFromRedis eventId s2)
         | None \<Rightarrow> (CleanupNoEvent, s))
      else
        case getEventFromRedis eventId s of
          None \<Rightarrow> (SkipNoEvent, s)
        | Some ev \<Rightarrow>
            if \<not> list_ex (\<lambda>p. Some (p_id p) = participantId) (participants ev)
            then (SkipNotParticipating, s)
            else
              (case participantId of
                 None \<Rightarrow> (ReminderFailed, s)
               | Some u \<Rightarrow>
                   (case userSend en u s of
                      (Some m, s') \<Rightarrow> (ReminderSent, s')
                    | (None, s') \<Rightarrow> (ReminderFailed, s'))))"

subsection \<open>Runs of the bot\<close>

datatype request =
    CreateEvent creation
  | Button string interaction
  | ChangeTimeModal event_id interaction "int option"
  | JobFires job

text \<open>One request handled at the instant \<open>now\<close>. A job that fires leaves the queue
  (\<open>removeOnComplete\<close>, \<open>removeOnFail\<close>).\<close>

fun step :: "env \<Rightarrow> int \<times> request \<Rightarrow> state \<Rightarrow> state" where
  "step en (now, CreateEvent c) s = snd (handleCreateEvent en now c s)"
| "step en (now, Button customId ia) s = snd (handleButtonInteraction en now customId ia s)"
| "step en (now, ChangeTimeModal eventId ia parsed) s =
     snd (handleModalSubmission en now eventId ia parsed s)"
| "step en (now, JobFires jb) s =
     (let s' = snd (reminderWorker en now jb s)
      in s'\<lparr>reminderQueue := remove1 jb (reminderQueue s')\<rparr>)"

definition run :: "env \<Rightarrow> (int \<times> request) list \<Rightarrow> state \<Rightarrow> state" where
  "run en reqs s = fold (step en) reqs s"

definition init :: state where
  "init = \<lparr>events = (\<lambda>_. None), dm_messages = (\<lambda>_. []), reminderQueue = [],
           channel_messages = {}, inbox = {}, next_message = 0\<rparr>"

subsection \<open>Roster invariants\<close>

text \<open>The number of participants holding a role, the quotas of a standard group, and
  what is expected of an event stored under the key \<open>eid\<close>: the key has the form of a
  generated id, the event carries that id, no user is listed twice, the roster has at
  most 8 entries, every participant holds one of the roles that have classes, and a
  standard group respects the quotas.\<close>

definition roleCount :: "string \<Rightarrow> participant list \<Rightarrow> nat" where
  "roleCount role ps = length (filter (\<lambda>p. p_role p = role) ps)"

definition quotasHold :: "participant list \<Rightarrow> bool" where
  "quotasHold ps =
     (roleCount ''tank'' ps \<le> 2 \<and> roleCount ''healer'' ps \<le> 2 \<and> roleCount ''dps'' ps \<le> 4)"

definition eventOk :: "event_id \<Rightarrow> event \<Rightarrow> bool" where
  "eventOk eid ev =
     (startsWith eid ''event_'' \<and> e_id ev = eid \<and> distinct (map p_id (participants ev))
      \<and> length (participants ev) \<le> 8
      \<and> list_all (\<lambda>p. p_role p \<in> set classRoles) (participants ev)
      \<and> (if groupType ev = ''standard'' then quotasHold (participants ev) else True))"

definition storeOk :: "state \<Rightarrow> bool" where
  "storeOk s = (\<forall>eid ev. events s eid = Some ev \<longrightarrow> eventOk eid ev)"

subsection \<open>Sample inputs\<close>

text \<open>An environment in which every Discord call succeeds; an event created at
  instant 0 by \<open>org\<close> for the instant 100 000 000 (27 h 46 min ahead), whose id is
  \<open>event_0_k3x9q\<close>; a click by a member without the authorized role on a button of the
  announcement; the state once the event is created; the state once \<open>u\<close> has joined it
  as tank, and the event stored then.\<close>

definition env_open :: env where
  "env_open = \<lparr>reachable = (\<lambda>_. True), channel_found = True\<rparr>"

definition sample_creation :: "string option \<Rightarrow> creation" where
  "sample_creation g =
     \<lparr>c_user = ''org'', c_authorized = True, c_type = ''maps'', c_group_type = g,
      c_parsed = Some 100000000, c_description = [], c_random = ''k3x9q''\<rparr>"

definition sample_id :: event_id where
  "sample_id = ''event_0_k3x9q''"

definition click :: "user_id \<Rightarrow> interaction" where
  "click u = \<lparr>i_user = u, i_hasRole = False, i_message = Some 0\<rparr>"

definition sample_created :: state where
  "sample_created = run env_open [(0, CreateEvent (sample_creation None))] init"

definition sample_joined :: state where
  "sample_joined =
     run env_open [(0, Button (classButtonId ''tank'' ''Paladin'' sample_id) (click ''u''))]
       sample_created"

definition sample_event :: event where
  "sample_event =
     \<lparr>e_id = sample_id, e_type = ''maps'', e_date = 100000000, organizer = ''org'',
      description = [], groupType = ''standard'',
      participants = [\<lparr>p_id = ''u'', p_role = ''tank'', p_class = Some ''Paladin''\<rparr>],
      messageId = Some 0\<rparr>"

text \<open>Further states: the event once \<open>v\<close> has joined after \<open>u\<close>; a light-party event with
  four participants; a standard event with its eight slots taken (two tanks, two
  healers, four DPS).\<close>

definition sample_two :: state where
  "sample_two =
     run env_open [(1, Button (classButtonId ''healer'' ''Sage'' sample_id) (click ''v''))]
       sample_joined"

definition light_party_requests :: "(int \<times> request) list" where
  "light_party_requests =
     [(0, CreateEvent (sample_creation (Some ''light_party''))),
      (1, Button (classButtonId ''dps'' ''Black Mage'' sample_id) (click ''a'')),
      (2, Button (classButtonId ''tank'' ''Paladin'' sample_id) (click ''b'')),
      (3, Button (classButtonId ''healer'' ''Sage'' sample_id) (click ''c'')),
      (4, Button (classButtonId ''dps'' ''Monk'' sample_id) (click ''d''))]"

definition sample_light :: state where
  "sample_light = run env_open light_party_requests init"

definition standard_requests :: "(int \<times> request) list" where
  "standard_requests =
     [(0, CreateEvent (sample_creation None)),
      (1, Button (classButtonId ''tank'' ''Paladin'' sample_id) (click ''t1'')),
      (2, Button (classButtonId ''tank'' ''Dark Knight'' sample_id) (click ''t2'')),
      (3, Button (classButtonId ''healer'' ''Sage'' sample_id) (click ''h1'')),
      (4, Button (classButtonId ''healer'' ''Scholar'' sample_id) (click ''h2'')),
      (5, Button (classButtonId ''dps'' ''Monk'' sample_id) (click ''d1'')),
      (6, Button (classButtonId ''dps'' ''Ninja'' sample_id) (click ''d2'')),
      (7, Button (classButtonId ''dps'' ''Bard'' sample_id) (click ''d3'')),
      (8, Button (classButtonId ''dps'' ''Viper'' sample_id) (click ''d4''))]"

definition sample_full :: state where
  "sample_full = run env_open standard_requests init"

text \<open>The standard event when only its two tanks have joined.\<close>

definition sample_tanks :: state where
  "sample_tanks = run env_open (take 3 standard_requests) init"

section \<open>Properties\<close>

subsection \<open>Parsing the custom ids of the bot's buttons\<close>

lemma split_us_append:
  "split_us (a @ CHR ''_'' # b) =
     (fst (split_us a), snd (split_us a) @ fst (split_us b) # snd (split_us b))"
  by (induction a) (simp_all add: case_prod_beta)

lemma split_us_plain: "CHR ''_'' \<notin> set a \<Longrightarrow> split_us a = (a, [])"
  by (induction a) auto

lemma join_us_Cons: "join_us ((c # x) # xs) = c # join_us (x # xs)"
  by (cases xs) simp_all

lemma join_split: "join_us (fst (split_us r) # snd (split_us r)) = r"
  by (induction r) (simp_all add: case_prod_beta join_us_Cons)

lemma indexOf_first: "x \<notin> set pre \<Longrightarrow> indexOf x (pre @ x # post) = Some (length pre)"
proof -
  assume "x \<notin> set pre"
  then have "takeWhile (\<lambda>y. y \<noteq> x) (pre @ x # post) = pre"
    by (induction pre) auto
  then show ?thesis by (simp add: indexOf_def)
qed

lemma event_id_form: "startsWith eid ''event_'' \<Longrightarrow> \<exists>r. eid = ''event'' @ CHR ''_'' # r"
proof -
  assume "startsWith eid ''event_''"
  then have "take (length ''event_'') eid = ''event_''" by (simp only: startsWith_def)
  then have "eid = ''event_'' @ drop (length ''event_'') eid" by (metis append_take_drop_id)
  then have "eid = ''event'' @ CHR ''_'' # drop (length ''event_'') eid" by simp
  then show ?thesis by blast
qed

lemma parse_event_button:
  assumes "action \<in> set [''participate'', ''withdraw'', ''changeRole'', ''changeTime'', ''delete'']"
  shows "parseButtonInteraction (eventButtonId action eid) =
           Inr \<lparr>b_action = action, b_eventId = eid, b_role = None, b_className = None\<rparr>"
proof -
  from assms have p: "CHR ''_'' \<notin> set action" by auto
  have "split_us (eventButtonId action eid) = (action, fst (split_us eid) # snd (split_us eid))"
    by (simp add: eventButtonId_def split_us_append split_us_plain [OF p])
  with assms show ?thesis
    by (auto simp: parseButtonInteraction_def join_split)
qed

lemma parse_role_button:
  assumes "CHR ''_'' \<notin> set role"
  shows "parseButtonInteraction (roleButtonId role eid) =
           Inr \<lparr>b_action = ''role'', b_eventId = eid, b_role = Some role, b_className = None\<rparr>"
    and "parseButtonInteraction (roleChangeButtonId role eid) =
           Inr \<lparr>b_action = ''rolechange'', b_eventId = eid, b_role = Some role,
                b_className = None\<rparr>"
proof -
  have r: "split_us (role @ CHR ''_'' # eid) = (role, fst (split_us eid) # snd (split_us eid))"
    by (simp add: split_us_append split_us_plain [OF assms])
  have "split_us (roleButtonId role eid)
          = (''role'', role # fst (split_us eid) # snd (split_us eid))"
    using split_us_append [of "''role''" "role @ CHR ''_'' # eid"]
    by (simp add: roleButtonId_def r)
  then show "parseButtonInteraction (roleButtonId role eid) =
           Inr \<lparr>b_action = ''role'', b_eventId = eid, b_role = Some role, b_className = None\<rparr>"
    by (simp add: parseButtonInteraction_def join_split first_def)
  have "split_us (roleChangeButtonId role eid)
          = (''rolechange'', role # fst (split_us eid) # snd (split_us eid))"
    using split_us_append [of "''rolechange''" "role @ CHR ''_'' # eid"]
    by (simp add: roleChangeButtonId_def r)
  then show "parseButtonInteraction (roleChangeButtonId role eid) =
           Inr \<lparr>b_action = ''rolechange'', b_eventId = eid, b_role = Some role,
                b_className = None\<rparr>"
    by (simp add: parseButtonInteraction_def join_split first_def)
qed

text \<open>The id of the blue-mage button holds an underscore of its own: the parser reads
  the role \<open>blue\<close> and an event id that begins with \<open>mage_\<close>.\<close>

lemma parse_blue_mage_button:
  "parseButtonInteraction (roleButtonId ''blue_mage'' eid) =
     Inr \<lparr>b_action = ''role'', b_eventId = ''mage_'' @ eid, b_role = Some ''blue'',
          b_className = None\<rparr>"
proof -
  have "roleButtonId ''blue_mage'' eid = roleButtonId ''blue'' (''mage_'' @ eid)"
    by (simp add: roleButtonId_def)
  then show ?thesis by (simp add: parse_role_button(1))
qed

lemma replaceSpaces_classes:
  assumes "role \<in> set classRoles" and "\<not> invalidClass role cls"
  shows "''event'' \<notin> set (fst (split_us (replaceSpaces cls)) # snd (split_us (replaceSpaces cls)))
       \<and> underscoresToSpaces (replaceSpaces cls) = cls"
  using assms
  by (auto simp: classRoles_def invalidClass_def ROLE_CLASS_def whitespace_def
        underscoresToSpaces_def)

lemma parse_of_split:
  assumes sp: "split_us cid = (action, role # ws @ ''event'' # rs)"
      and act: "action = ''class'' \<or> action = ''rolechangeclass''"
      and nev: "''event'' \<notin> set (role # ws)"
  shows "parseButtonInteraction cid =
           Inr \<lparr>b_action = action, b_eventId = join_us (''event'' # rs), b_role = Some role,
                b_className = Some (underscoresToSpaces (join_us ws))\<rparr>"
proof -
  have ix: "indexOf ''event'' (role # ws @ ''event'' # rs) = Some (Suc (length ws))"
    using indexOf_first [OF nev, of rs] by simp
  have n: "\<not> (action = ''role'' \<or> action = ''rolechange'')" using act by auto
  show ?thesis
    unfolding parseButtonInteraction_def sp prod.case ix option.case
    using act n by (simp add: first_def del: join_us.simps)
qed

lemma parse_class_ids:
  assumes role: "role \<in> set classRoles" and cls: "\<not> invalidClass role cls"
      and eid: "startsWith eid ''event_''"
      and act: "action = ''class'' \<or> action = ''rolechangeclass''"
  shows "parseButtonInteraction (join_us [action, role, replaceSpaces cls, eid]) =
           Inr \<lparr>b_action = action, b_eventId = eid, b_role = Some role,
                b_className = Some cls\<rparr>"
proof -
  let ?w = "replaceSpaces cls"
  let ?ws = "fst (split_us ?w) # snd (split_us ?w)"
  from event_id_form [OF eid] obtain r where r: "eid = ''event'' @ CHR ''_'' # r" by blast
  let ?rs = "fst (split_us r) # snd (split_us r)"
  from role have pr: "CHR ''_'' \<notin> set role" and ne: "role \<noteq> ''event''"
    by (auto simp: classRoles_def)
  from act have pa: "CHR ''_'' \<notin> set action" by auto
  from replaceSpaces_classes [OF role cls]
  have w1: "''event'' \<notin> set ?ws" and w2: "underscoresToSpaces ?w = cls" by simp_all
  have se: "split_us eid = (''event'', ?rs)"
    unfolding r split_us_append by simp
  have sw: "split_us (?w @ CHR ''_'' # eid) = (fst (split_us ?w), snd (split_us ?w) @ ''event'' # ?rs)"
    by (simp add: split_us_append se)
  have sr: "split_us (role @ CHR ''_'' # ?w @ CHR ''_'' # eid) = (role, ?ws @ ''event'' # ?rs)"
    by (simp add: split_us_append [of role] split_us_plain [OF pr] sw)
  have sa: "split_us (join_us [action, role, ?w, eid]) = (action, role # ?ws @ ''event'' # ?rs)"
    using split_us_append [of action "role @ CHR ''_'' # ?w @ CHR ''_'' # eid"]
    by (simp add: split_us_plain [OF pa] sr)
  have je: "join_us (''event'' # ?rs) = eid"
    using join_split [of r] unfolding r by simp
  have jw: "join_us ?ws = ?w" by (rule join_split)
  have nev: "''event'' \<notin> set (role # ?ws)" using w1 ne by auto
  from parse_of_split [OF sa act nev] show ?thesis
    unfolding je jw w2 .
qed

lemma parse_class_button:
  assumes "role \<in> set classRoles" and "\<not> invalidClass role cls"
      and "startsWith eid ''event_''"
  shows "parseButtonInteraction (classButtonId role cls eid) =
           Inr \<lparr>b_action = ''class'', b_eventId = eid, b_role = Some role,
                b_className = Some cls\<rparr>"
    and "parseButtonInteraction (roleChangeClassButtonId role cls eid) =
           Inr \<lparr>b_action = ''rolechangeclass'', b_eventId = eid, b_role = Some role,
                b_className = Some cls\<rparr>"
  using parse_class_ids [OF assms]
  by (simp_all add: classButtonId_def roleChangeClassButtonId_def del: join_us.simps)


subsection \<open>The buttons that the bot offers\<close>

lemma concat_rowsOf: "0 < n \<Longrightarrow> concat (rowsOf n xs) = xs"
proof (induction n xs rule: rowsOf.induct)
  case (1 n xs)
  show ?case
  proof (cases "xs = []")
    case True
    then show ?thesis by (simp add: rowsOf.simps [of n "[]"])
  next
    case False
    with 1 have "concat (rowsOf n (drop n xs)) = drop n xs" by simp
    with False 1(2) show ?thesis by (subst rowsOf.simps) simp
  qed
qed

text \<open>The ids used in the statements below are ids of buttons that the bot builds: the
  five buttons of the announcement, the four of the role prompt (the blue-mage button
  among them), the three of the role-change prompt, and a class button for every class
  of a role.\<close>

lemma offered_buttons:
  "action \<in> set [''participate'', ''withdraw'', ''changeRole'', ''changeTime'', ''delete'']
     \<Longrightarrow> eventButtonId action eid \<in> set (createEventButtons eid)"
  "role \<in> set validRoles \<Longrightarrow> roleButtonId role eid \<in> set (createRoleButtons eid)"
  "role \<in> set classRoles \<Longrightarrow> roleChangeButtonId role eid \<in> set (createRoleChangeButtons eid)"
  by (auto simp: createEventButtons_def createRoleButtons_def createRoleChangeButtons_def
        validRoles_def classRoles_def)

lemma offered_class_buttons:
  assumes "role \<in> set classRoles" and "\<not> invalidClass role cls"
  shows "\<exists>rows. createClassButtons role eid = Some rows
            \<and> classButtonId role cls eid \<in> set (concat rows)"
    and "\<exists>rows. createRoleChangeClassButtons role eid = Some rows
            \<and> roleChangeClassButtonId role cls eid \<in> set (concat rows)"
proof -
  from assms obtain classes where
    c: "ROLE_CLASS role = Some classes" "cls \<in> set classes"
    by (auto simp: invalidClass_def split: option.splits)
  from c(2) have n: "classes \<noteq> []" by auto
  note c = c n
  have five: "(0::nat) < 5" by simp
  from c(2) have m1: "classButtonId role cls eid
      \<in> set (concat (rowsOf 5 (map (\<lambda>className. classButtonId role className eid) classes)))"
    unfolding concat_rowsOf [OF five] by simp
  from c(2) have m2: "roleChangeClassButtonId role cls eid
      \<in> set (concat (rowsOf 5
                (map (\<lambda>className. roleChangeClassButtonId role className eid) classes)))"
    unfolding concat_rowsOf [OF five] by simp
  from c m1 show "\<exists>rows. createClassButtons role eid = Some rows
            \<and> classButtonId role cls eid \<in> set (concat rows)"
    unfolding createClassButtons_def by (simp del: set_concat)
  from c m2 show "\<exists>rows. createRoleChangeClassButtons role eid = Some rows
            \<and> roleChangeClassButtonId role cls eid \<in> set (concat rows)"
    unfolding createRoleChangeClassButtons_def by (simp del: set_concat)
qed

subsection \<open>From a press of a button to the branch that answers it\<close>

lemma not_verify: "c \<noteq> CHR ''v'' \<Longrightarrow> \<not> startsWith (c # cs) ''verifyMember_''"
  by (simp add: startsWith_def)

lemma handle_event_button:
  assumes "action \<in> set [''participate'', ''withdraw'', ''changeRole'', ''changeTime'', ''delete'']"
  shows "handleButtonInteraction en now (eventButtonId action eid) ia s =
           handleParsed en now
             \<lparr>b_action = action, b_eventId = eid, b_role = None, b_className = None\<rparr> ia s"
proof -
  from assms have "\<not> startsWith (eventButtonId action eid) ''verifyMember_''"
    by (auto simp: eventButtonId_def startsWith_def)
  then show ?thesis
    by (simp add: handleButtonInteraction_def parse_event_button [OF assms])
qed

lemma handle_role_button:
  assumes "CHR ''_'' \<notin> set role"
  shows "handleButtonInteraction en now (roleButtonId role eid) ia s =
           handleParsed en now
             \<lparr>b_action = ''role'', b_eventId = eid, b_role = Some role, b_className = None\<rparr>
             ia s"
    and "handleButtonInteraction en now (roleChangeButtonId role eid) ia s =
           handleParsed en now
             \<lparr>b_action = ''rolechange'', b_eventId = eid, b_role = Some role,
              b_className = None\<rparr> ia s"
proof -
  have "\<not> startsWith (roleButtonId role eid) ''verifyMember_''"
       "\<not> startsWith (roleChangeButtonId role eid) ''verifyMember_''"
    by (simp_all add: roleButtonId_def roleChangeButtonId_def startsWith_def)
  then show "handleButtonInteraction en now (roleButtonId role eid) ia s =
           handleParsed en now
             \<lparr>b_action = ''role'', b_eventId = eid, b_role = Some role, b_className = None\<rparr>
             ia s"
    and "handleButtonInteraction en now (roleChangeButtonId role eid) ia s =
           handleParsed en now
             \<lparr>b_action = ''rolechange'', b_eventId = eid, b_role = Some role,
              b_className = None\<rparr> ia s"
    by (simp_all add: handleButtonInteraction_def parse_role_button [OF assms])
qed

lemma handle_blue_mage_button:
  "handleButtonInteraction en now (roleButtonId ''blue_mage'' eid) ia s =
     handleParsed en now
       \<lparr>b_action = ''role'', b_eventId = ''mage_'' @ eid, b_role = Some ''blue'',
        b_className = None\<rparr> ia s"
proof -
  have "\<not> startsWith (roleButtonId ''blue_mage'' eid) ''verifyMember_''"
    by (simp add: roleButtonId_def startsWith_def)
  then show ?thesis
    by (simp add: handleButtonInteraction_def parse_blue_mage_button)
qed

lemma handle_class_button:
  assumes "role \<in> set classRoles" and "\<not> invalidClass role cls"
      and "startsWith eid ''event_''"
  shows "handleButtonInteraction en now (classButtonId role cls eid) ia s =
           handleParsed en now
             \<lparr>b_action = ''class'', b_eventId = eid, b_role = Some role,
              b_className = Some cls\<rparr> ia s"
    and "handleButtonInteraction en now (roleChangeClassButtonId role cls eid) ia s =
           handleParsed en now
             \<lparr>b_action = ''rolechangeclass'', b_eventId = eid, b_role = Some role,
              b_className = Some cls\<rparr> ia s"
proof -
  have "\<not> startsWith (classButtonId role cls eid) ''verifyMember_''"
       "\<not> startsWith (roleChangeClassButtonId role cls eid) ''verifyMember_''"
    by (simp_all add: classButtonId_def roleChangeClassButtonId_def startsWith_def)
  then show "handleButtonInteraction en now (classButtonId role cls eid) ia s =
           handleParsed en now
             \<lparr>b_action = ''class'', b_eventId = eid, b_role = Some role,
              b_className = Some cls\<rparr> ia s"
    and "handleButtonInteraction en now (roleChangeClassButtonId role cls eid) ia s =
           handleParsed en now
             \<lparr>b_action = ''rolechangeclass'', b_eventId = eid, b_role = Some role,
              b_className = Some cls\<rparr> ia s"
    by (simp_all add: handleButtonInteraction_def parse_class_button [OF assms])
qed

text \<open>The branch taken for an event that is in the store.\<close>

lemma parsed_branch:
  assumes "events s eid = Some ev"
  shows "handleParsed en now \<lparr>b_action = ''withdraw'', b_eventId = eid, b_role = None,
            b_className = None\<rparr> ia s = withdrawAction en now eid ia ev s"
    and "handleParsed en now \<lparr>b_action = ''changeRole'', b_eventId = eid, b_role = None,
            b_className = None\<rparr> ia s = changeRoleAction ia ev s"
    and "handleParsed en now \<lparr>b_action = ''participate'', b_eventId = eid, b_role = None,
            b_className = None\<rparr> ia s = participateAction ia ev s"
    and "handleParsed en now \<lparr>b_action = ''role'', b_eventId = eid, b_role = Some role,
            b_className = None\<rparr> ia s = roleAction en now eid role ia ev s"
    and "handleParsed en now \<lparr>b_action = ''class'', b_eventId = eid, b_role = Some role,
            b_className = Some cls\<rparr> ia s = classAction en now eid role cls ia ev s"
    and "handleParsed en now \<lparr>b_action = ''rolechange'', b_eventId = eid, b_role = Some role,
            b_className = None\<rparr> ia s = roleChangeAction en now eid role ia ev s"
    and "handleParsed en now \<lparr>b_action = ''rolechangeclass'', b_eventId = eid,
            b_role = Some role, b_className = Some cls\<rparr> ia s
           = roleChangeClassAction en now eid role cls ia ev s"
    and "handleParsed en now \<lparr>b_action = ''changeTime'', b_eventId = eid, b_role = None,
            b_className = None\<rparr> ia s = changeTimeAction ia ev s"
    and "handleParsed en now \<lparr>b_action = ''delete'', b_eventId = eid, b_role = None,
            b_className = None\<rparr> ia s = deleteAction en now eid ia ev s"
  using assms by (simp_all add: handleParsed_def getEventFromRedis_def)

lemma parsed_missing:
  "events s (b_eventId p) = None \<Longrightarrow> handleParsed en now p ia s = (Inl NotFound, s)"
  by (simp add: handleParsed_def getEventFromRedis_def)

subsection \<open>Evaluation of the model and frame lemmas\<close>

lemma sample_id_form: "startsWith sample_id ''event_''"
  by (simp add: sample_id_def startsWith_def)

lemma sample_newEventId: "newEventId 0 ''k3x9q'' = sample_id"
  by (simp add: newEventId_def showNumber_def digits.simps [of 0] sample_id_def)

lemma class_facts:
  "''tank'' \<in> set classRoles" "''healer'' \<in> set classRoles" "''dps'' \<in> set classRoles"
  "\<not> invalidClass ''tank'' ''Paladin''" "\<not> invalidClass ''tank'' ''Dark Knight''"
  "\<not> invalidClass ''tank'' ''Warrior''" "\<not> invalidClass ''tank'' ''Gunbreaker''"
  "\<not> invalidClass ''healer'' ''Sage''" "\<not> invalidClass ''healer'' ''Scholar''"
  "\<not> invalidClass ''dps'' ''Monk''" "\<not> invalidClass ''dps'' ''Ninja''"
  "\<not> invalidClass ''dps'' ''Bard''" "\<not> invalidClass ''dps'' ''Viper''"
  "\<not> invalidClass ''dps'' ''Black Mage''"
  by (simp_all add: classRoles_def invalidClass_def ROLE_CLASS_def)

lemmas eval_defs = run_def handleCreateEvent_def handleParsed_def
  handleModalSubmission_def reminderWorker_def roleAction_def classAction_def
  withdrawAction_def deleteAction_def roleChangeAction_def roleChangeClassAction_def
  participateAction_def changeRoleAction_def changeTimeAction_def
  getEventFromRedis_def saveEventToRedis_def deleteEventFromRedis_def
  saveDMMessageForEvent_def getDMMessagesForEvent_def deleteDMMessagesForEvent_def
  userSend_def notify_def pruneOne_def pruneDMsForCompletedEvent_def typesToPrune_def
  reminderTimes_def reminderJob_def scheduleReminders_def cancelEventReminders_def
  cancelParticipantReminders_def cleanupJob_def scheduleEventCleanup_def startsWith_def
  validRoles_def classRoles_def ROLE_LIMITS_def ROLE_CLASS_def limitReached_def
  noClasses_def invalidClass_def hasRows_def
  isEventOrganizerOrAdmin_def participating_def pushParticipant_def assignRole_def
  recipients_def validateDateTime_def init_def Let_def
  env_open_def sample_creation_def click_def sample_event_def sample_newEventId

lemmas button_defs =
  handle_class_button [OF _ _ sample_id_form] handle_role_button handle_event_button
  class_facts

lemma sample_created_eq:
  "sample_created =
     \<lparr>events = (\<lambda>_. None)(sample_id := Some (sample_event\<lparr>participants := []\<rparr>)),
      dm_messages = (\<lambda>_. []),
      reminderQueue = [cleanupJob 0 sample_id 100300000],
      channel_messages = {0}, inbox = {}, next_message = 1\<rparr>"
  by (simp add: sample_created_def eval_defs)

lemma sample_joined_eq:
  "sample_joined =
     \<lparr>events = (\<lambda>_. None)(sample_id := Some sample_event),
      dm_messages = (\<lambda>_. [])(sample_id := [((''u'', ''registration'', 0),
          \<lparr>d_userId = ''u'', d_messageId = 1, d_messageType = ''registration'',
           d_timestamp = 0\<rparr>)]),
      reminderQueue = [cleanupJob 0 sample_id 100300000,
         reminderJob 0 sample_id 100000000 ''u'' (86400000, ''24 hours''),
         reminderJob 0 sample_id 100000000 ''u'' (43200000, ''12 hours''),
         reminderJob 0 sample_id 100000000 ''u'' (3600000, ''1 hour'')],
      channel_messages = {0}, inbox = {(''u'', 1)}, next_message = 2\<rparr>"
  by (simp add: sample_joined_def sample_created_eq button_defs eval_defs)

lemma notify_frame [simp]:
  "events (notify en now eid ty u s) = events s"
  "reminderQueue (notify en now eid ty u s) = reminderQueue s"
  "channel_messages (notify en now eid ty u s) = channel_messages s"
  by (simp_all add: notify_def userSend_def saveDMMessageForEvent_def)

lemma fold_notify_frame [simp]:
  "events (fold (notify en now eid ty) us s) = events s"
  "reminderQueue (fold (notify en now eid ty) us s) = reminderQueue s"
  "channel_messages (fold (notify en now eid ty) us s) = channel_messages s"
  by (induction us arbitrary: s) simp_all

lemma dm_frame [simp]:
  "dm_messages (cancelEventReminders eid s) = dm_messages s"
  "dm_messages (deleteEventFromRedis eid s) = dm_messages s"
  "dm_messages (saveEventToRedis ev s) = dm_messages s"
  by (simp_all add: cancelEventReminders_def deleteEventFromRedis_def saveEventToRedis_def)

lemma fields_hset: "fst ` set (hset k v h) = insert k (fst ` set h)"
proof (induction h)
  case Nil
  show ?case by simp
next
  case (Cons a h)
  obtain k' v' where a: "a = (k', v')" by (cases a)
  show ?case
  proof (cases "k' = k")
    case True
    then show ?thesis by (simp add: a)
  next
    case False
    then show ?thesis using Cons.IH by (simp add: a insert_commute)
  qed
qed

lemma fields_notify:
  "fst ` set (dm_messages (notify en now eid ty u s) eid) =
     (if reachable en u then insert (u, ty, now) (fst ` set (dm_messages s eid))
      else fst ` set (dm_messages s eid))"
  by (simp add: notify_def userSend_def saveDMMessageForEvent_def fields_hset)

lemma fields_fold_notify:
  "fst ` set (dm_messages (fold (notify en now eid ty) us s) eid) =
     fst ` set (dm_messages s eid) \<union> {(u, ty, now) | u. u \<in> set us \<and> reachable en u}"
  by (induction us arbitrary: s) (auto simp: fields_notify)

lemma reminderPromises_jobs:
  "j \<in> set (reminderPromises now eid date ps) \<Longrightarrow>
     \<not> startsWith (j_name j) ''cleanup_'' \<and> j_participantId j \<noteq> None \<and> j_eventId j = eid"
  by (induction ps) (auto simp: reminderJob_def startsWith_def)

lemma cleanupJob_is_cleanup:
  "startsWith (j_name (cleanupJob t eid d)) ''cleanup_''"
  by (simp add: startsWith_def cleanupJob_def)

subsection \<open>Reminder scheduling\<close>

lemma reminderJob_inj:
  "reminderJob now eid date p r = reminderJob now eid date p' r' \<longleftrightarrow> p = p' \<and> r = r'"
  by (cases r; cases r') (auto simp: reminderJob_def)

lemma set_reminderPromises:
  "set (reminderPromises now eid date ps) =
     {reminderJob now eid date p r | p r.
        p \<in> set ps \<and> r \<in> set reminderTimes \<and> now < date - fst r}"
proof (induction ps)
  case Nil
  show ?case by simp
next
  case (Cons a ps)
  have "set (reminderPromises now eid date (a # ps)) =
     reminderJob now eid date a ` {r \<in> set reminderTimes. now < date - fst r}
       \<union> set (reminderPromises now eid date ps)"
    by auto
  also have "\<dots> = {reminderJob now eid date p r | p r.
        p \<in> set (a # ps) \<and> r \<in> set reminderTimes \<and> now < date - fst r}"
    unfolding Cons.IH by (simp only: set_simps) blast
  finally show ?case .
qed

text \<open>
  Claim C8. \<open>scheduleReminders\<close> appends to the queue exactly the jobs of
  \<open>reminderPromises\<close>. The offsets are 24 h, 12 h and 1 h in milliseconds. For every
  participant being scheduled and each of the three offsets, the job of that participant
  and offset is enqueued if and only if \<open>date - offset\<close> is strictly after \<open>now\<close>, and its
  fire time (the instant it is added plus its delay) is \<open>date - offset\<close>. Nothing else
  is enqueued: every job added is the job of a listed participant and an offset whose
  fire time is still ahead, so an offset that has passed is skipped and not made up for.
\<close>

theorem C8_reminder_enqueued_iff_future:
  "reminderQueue (scheduleReminders now eid date ps s)
     = reminderQueue s @ reminderPromises now eid date ps
   \<and> (\<forall>j. j \<in> set (reminderPromises now eid date ps) \<longleftrightarrow>
          (\<exists>p r. p \<in> set ps \<and> r \<in> set reminderTimes \<and> now < date - fst r
                 \<and> j = reminderJob now eid date p r))
   \<and> (\<forall>p r. p \<in> set ps \<and> r \<in> set reminderTimes \<longrightarrow>
          (reminderJob now eid date p r \<in> set (reminderPromises now eid date ps))
             = (now < date - fst r)
          \<and> fire_time (reminderJob now eid date p r) = date - fst r)
   \<and> map fst reminderTimes = [86400000, 43200000, 3600000]"
proof -
  have q: "reminderQueue (scheduleReminders now eid date ps s)
     = reminderQueue s @ reminderPromises now eid date ps"
    by (simp add: scheduleReminders_def)
  have m: "\<forall>j. j \<in> set (reminderPromises now eid date ps) \<longleftrightarrow>
          (\<exists>p r. p \<in> set ps \<and> r \<in> set reminderTimes \<and> now < date - fst r
                 \<and> j = reminderJob now eid date p r)"
    unfolding set_reminderPromises by blast
  have i: "\<forall>p r. p \<in> set ps \<and> r \<in> set reminderTimes \<longrightarrow>
          (reminderJob now eid date p r \<in> set (reminderPromises now eid date ps))
             = (now < date - fst r)
          \<and> fire_time (reminderJob now eid date p r) = date - fst r"
    unfolding set_reminderPromises
    by (auto simp: reminderJob_inj fire_time_def reminderJob_def)
  have t: "map fst reminderTimes = [86400000, 43200000, 3600000]"
    by (simp add: reminderTimes_def)
  from q m i t show ?thesis by blast
qed

text \<open>An event 50 000 s ahead: the 12 h reminder is enqueued for 6 800 s from now, the
  24 h reminder is not.\<close>

theorem C8_reminder_enqueued_witness:
  "reminderJob 0 sample_id 50000000 ''u'' (43200000, ''12 hours'')
     \<in> set (reminderPromises 0 sample_id 50000000 [''u''])
   \<and> reminderJob 0 sample_id 50000000 ''u'' (86400000, ''24 hours'')
     \<notin> set (reminderPromises 0 sample_id 50000000 [''u''])
   \<and> fire_time (reminderJob 0 sample_id 50000000 ''u'' (43200000, ''12 hours'')) = 6800000"
proof -
  let ?P = "reminderPromises 0 sample_id 50000000 [''u'']"
  let ?J = "reminderJob 0 sample_id 50000000 ''u''"
  have a: "''u'' \<in> set [''u'']" by simp
  have b: "(43200000, ''12 hours'') \<in> set reminderTimes" by (simp add: reminderTimes_def)
  have c: "(86400000, ''24 hours'') \<in> set reminderTimes" by (simp add: reminderTimes_def)
  have T: "\<forall>p r. p \<in> set [''u''] \<and> r \<in> set reminderTimes \<longrightarrow>
          (reminderJob 0 sample_id 50000000 p r \<in> set ?P) = (0 < 50000000 - fst r)
          \<and> fire_time (reminderJob 0 sample_id 50000000 p r) = 50000000 - fst r"
    using C8_reminder_enqueued_iff_future [of 0 "sample_id" 50000000 "[''u'']" init] by blast
  from T a b have "(?J (43200000, ''12 hours'') \<in> set ?P) = ((0::int) < 50000000 - 43200000)
      \<and> fire_time (?J (43200000, ''12 hours'')) = 50000000 - 43200000"
    by (metis fst_conv)
  moreover from T a c
  have "(?J (86400000, ''24 hours'') \<in> set ?P) = ((0::int) < 50000000 - 86400000)"
    by (metis fst_conv)
  ultimately show ?thesis by simp
qed

subsection \<open>The worker\<close>

text \<open>
  Claim C9. When a job that is not a cleanup job fires for participant \<open>u\<close>, the worker
  reloads the event from the store. If the event no longer exists, or \<open>u\<close> is not among
  its participants, the worker returns at once: the state is unchanged (nothing is sent)
  and the job completes. Otherwise the reminder is sent to \<open>u\<close>: when Discord reaches the
  user the message lands in the user's inbox, and when it does not, the failure is logged
  and the job completes all the same.
\<close>

theorem C9_reminder_fire:
  assumes "\<not> startsWith (j_name jb) ''cleanup_''"
      and "j_participantId jb = Some u"
  shows "(events s (j_eventId jb) = None \<longrightarrow> reminderWorker en now jb s = (SkipNoEvent, s))
   \<and> (\<forall>ev. events s (j_eventId jb) = Some ev \<and> u \<notin> p_id ` set (participants ev) \<longrightarrow>
          reminderWorker en now jb s = (SkipNotParticipating, s))
   \<and> (\<forall>ev. events s (j_eventId jb) = Some ev \<and> u \<in> p_id ` set (participants ev) \<longrightarrow>
          reminderWorker en now jb s =
            (if reachable en u
             then (ReminderSent,
                   s\<lparr>inbox := insert (u, next_message s) (inbox s),
                     next_message := Suc (next_message s)\<rparr>)
             else (ReminderFailed, s)))"
  using assms
  by (auto simp: reminderWorker_def getEventFromRedis_def list_ex_iff userSend_def)

text \<open>The 12 h reminder of \<open>u\<close> for the sample event is sent; the one of \<open>v\<close>, who never joined, and
  the one for an event that is not in the store are skipped.\<close>

theorem C9_reminder_fire_witness:
  "fst (reminderWorker env_open 56800000
          (reminderJob 0 sample_id 100000000 ''u'' (43200000, ''12 hours'')) sample_joined)
     = ReminderSent
   \<and> reminderWorker env_open 56800000
          (reminderJob 0 sample_id 100000000 ''v'' (43200000, ''12 hours'')) sample_joined
     = (SkipNotParticipating, sample_joined)
   \<and> reminderWorker env_open 56800000
          (reminderJob 0 sample_id 100000000 ''u'' (43200000, ''12 hours'')) init
     = (SkipNoEvent, init)"
proof -
  let ?ju = "reminderJob 0 sample_id 100000000 ''u'' (43200000, ''12 hours'')"
  let ?jv = "reminderJob 0 sample_id 100000000 ''v'' (43200000, ''12 hours'')"
  have e: "events sample_joined (j_eventId ?ju) = Some sample_event"
    by (simp add: sample_joined_eq reminderJob_def)
  have e': "events sample_joined (j_eventId ?jv) = Some sample_event"
    by (simp add: sample_joined_eq reminderJob_def)
  have n: "events init (j_eventId ?ju) = None" by (simp add: init_def)
  have 1: "fst (reminderWorker env_open 56800000 ?ju sample_joined) = ReminderSent"
    using C9_reminder_fire [of ?ju "''u''" sample_joined env_open 56800000] e
    by (simp add: reminderJob_def startsWith_def env_open_def sample_event_def)
  have 2: "reminderWorker env_open 56800000 ?jv sample_joined
             = (SkipNotParticipating, sample_joined)"
    using C9_reminder_fire [of ?jv "''v''" sample_joined env_open 56800000] e'
    by (simp add: reminderJob_def startsWith_def sample_event_def)
  have 3: "reminderWorker env_open 56800000 ?ju init = (SkipNoEvent, init)"
    using C9_reminder_fire [of ?ju "''u''" init env_open 56800000] n
    by (simp add: reminderJob_def startsWith_def)
  from 1 2 3 show ?thesis by simp
qed

text \<open>
  Claim C2 says that a cleanup job firing for an event whose date is still ahead is a
  no-op. The worker does not behave so. Only \<open>pruneDMsForCompletedEvent\<close> looks at the
  date: for an upcoming event it returns before touching a tracked message or the
  tracking records. The worker then goes on as for a completed event: it removes the
  announcement from the channel (when the channel is found and the event has a message
  id) and deletes the event record.
\<close>

theorem C2_cleanup_of_future_event:
  assumes "startsWith (j_name jb) ''cleanup_''"
      and "events s (j_eventId jb) = Some ev"
      and "now < e_date ev"
  shows "reminderWorker en now jb s =
           (CleanupDone,
            s\<lparr>events := (events s)(j_eventId jb := None),
              channel_messages :=
                (if channel_found en
                 then (case messageId ev of Some m \<Rightarrow> channel_messages s - {m}
                       | None \<Rightarrow> channel_messages s)
                 else channel_messages s)\<rparr>)"
  using assms
  by (simp add: reminderWorker_def getEventFromRedis_def pruneDMsForCompletedEvent_def
        deleteEventFromRedis_def Let_def split: option.splits)

text \<open>The cleanup job of the sample event firing at instant 5, long before the event: the tracking
  records stay, the announcement (message 0) and the event record are gone.\<close>

theorem C2_cleanup_of_future_event_witness:
  "getEventFromRedis sample_id sample_joined = Some sample_event
   \<and> 5 < e_date sample_event
   \<and> getEventFromRedis sample_id
       (snd (reminderWorker env_open 5 (cleanupJob 0 sample_id 100300000) sample_joined)) = None
   \<and> 0 \<in> channel_messages sample_joined
   \<and> 0 \<notin> channel_messages
       (snd (reminderWorker env_open 5 (cleanupJob 0 sample_id 100300000) sample_joined))
   \<and> dm_messages (snd (reminderWorker env_open 5 (cleanupJob 0 sample_id 100300000) sample_joined))
       = dm_messages sample_joined"
proof -
  have a: "startsWith (j_name (cleanupJob 0 sample_id 100300000)) ''cleanup_''"
    by (simp add: cleanupJob_def startsWith_def)
  have b: "events sample_joined (j_eventId (cleanupJob 0 sample_id 100300000)) = Some sample_event"
    by (simp add: sample_joined_eq cleanupJob_def)
  have c: "5 < e_date sample_event" by (simp add: sample_event_def)
  show ?thesis
    unfolding C2_cleanup_of_future_event [OF a b c]
    by (simp add: sample_joined_eq getEventFromRedis_def env_open_def cleanupJob_def
          sample_event_def)
qed

subsection \<open>Deleting an event and changing its time\<close>

text \<open>
  Claim C3 says that a successful delete removes the event record and all DM-tracking
  records of the event. The first half holds: after a delete by the organizer or by a
  holder of the authorized role, looking the event up finds nothing. The second half
  does not: the delete branch never calls \<open>deleteDMMessagesForEvent\<close>. Every tracking
  record of the event is still stored afterwards, together with one new
  \<open>cancellation\<close> record for each notified participant that Discord could reach.
\<close>

theorem C3_delete_keeps_dm_tracking:
  assumes "events s eid = Some ev" and "isEventOrganizerOrAdmin ia ev"
  shows "\<exists>s'. handleButtonInteraction en now (eventButtonId ''delete'' eid) ia s
                 = (Inr Deleted, s')
     \<and> getEventFromRedis eid s' = None
     \<and> fst ` set (dm_messages s' eid) =
         fst ` set (dm_messages s eid)
           \<union> {(u, ''cancellation'', now) | u. u \<in> set (recipients ev) \<and> reachable en u}"
  using assms
  by (simp add: handle_event_button parsed_branch deleteAction_def Let_def
        getEventFromRedis_def fields_fold_notify deleteEventFromRedis_def split: option.splits)

text \<open>The organizer presses the delete button of the sample event at instant 5: the event is gone, and its tracking hash
  holds the registration record of \<open>u\<close> and a cancellation record.\<close>

theorem C3_delete_keeps_dm_tracking_witness:
  "fst (handleButtonInteraction env_open 5 (eventButtonId ''delete'' sample_id) (click ''org'')
          sample_joined)
     = Inr Deleted
   \<and> getEventFromRedis sample_id
       (snd (handleButtonInteraction env_open 5 (eventButtonId ''delete'' sample_id) (click ''org'')
          sample_joined))
     = None
   \<and> map fst (dm_messages
       (snd (handleButtonInteraction env_open 5 (eventButtonId ''delete'' sample_id) (click ''org'')
          sample_joined))
       sample_id)
     = [(''u'', ''registration'', 0), (''u'', ''cancellation'', 5)]"
proof -
  let ?r = "handleButtonInteraction env_open 5 (eventButtonId ''delete'' sample_id) (click ''org'')
          sample_joined"
  have b: "events sample_joined sample_id = Some sample_event"
    by (simp add: sample_joined_eq)
  have c: "isEventOrganizerOrAdmin (click ''org'') sample_event"
    by (simp add: isEventOrganizerOrAdmin_def click_def sample_event_def)
  from C3_delete_keeps_dm_tracking [OF b c, of env_open 5]
  have "fst ?r = Inr Deleted \<and> getEventFromRedis sample_id (snd ?r) = None"
    by auto
  moreover have "map fst (dm_messages (snd ?r) sample_id)
      = [(''u'', ''registration'', 0), (''u'', ''cancellation'', 5)]"
    by (simp add: sample_joined_eq handle_event_button eval_defs)
  ultimately show ?thesis by simp
qed

text \<open>
  Claim C10. After a successful change of time of the event \<open>eid\<close>, every pending job of
  that event is a reminder job of a participant, and no cleanup job of the event is
  pending. \<open>cancelEventReminders\<close> selects jobs by the event id of their data alone, so
  it removes the cleanup job of the event with the reminders, and the jobs scheduled
  afterwards are those of \<open>scheduleReminders\<close>, which are reminder jobs.
\<close>

theorem C10_no_cleanup_after_changeTime:
  assumes "handleModalSubmission en now eid ia parsed s = (Inr TimeChanged, s')"
  shows "(\<forall>j \<in> set (reminderQueue s'). j_eventId j = eid \<longrightarrow>
            \<not> startsWith (j_name j) ''cleanup_'' \<and> j_participantId j \<noteq> None)
       \<and> (\<forall>t d. cleanupJob t eid d \<notin> set (reminderQueue s'))
       \<and> (\<forall>t d. cleanupJob t eid d \<notin> set (reminderQueue (cancelEventReminders eid s)))"
proof -
  from assms obtain ev d where
    s': "s' = fold (notify en now eid ''time_change'') (recipients (ev\<lparr>e_date := d\<rparr>))
            (scheduleReminders now eid d (map p_id (participants (ev\<lparr>e_date := d\<rparr>)))
               (cancelEventReminders eid (saveEventToRedis (ev\<lparr>e_date := d\<rparr>) s)))"
    by (auto simp: handleModalSubmission_def Let_def split: option.splits if_splits)
  have q: "reminderQueue s' =
      filter (\<lambda>j. j_eventId j \<noteq> eid) (reminderQueue s)
        @ reminderPromises now eid d (map p_id (participants ev))"
    by (simp add: s' scheduleReminders_def cancelEventReminders_def saveEventToRedis_def)
  have a: "\<forall>j \<in> set (reminderQueue s'). j_eventId j = eid \<longrightarrow>
            \<not> startsWith (j_name j) ''cleanup_'' \<and> j_participantId j \<noteq> None"
  proof (intro ballI impI)
    fix j assume j: "j \<in> set (reminderQueue s')" and e: "j_eventId j = eid"
    from j e have "j \<in> set (reminderPromises now eid d (map p_id (participants ev)))"
      unfolding q by simp
    from reminderPromises_jobs [OF this]
    show "\<not> startsWith (j_name j) ''cleanup_'' \<and> j_participantId j \<noteq> None" by simp
  qed
  have c: "\<forall>t d. j_eventId (cleanupJob t eid d) = eid" by (simp add: cleanupJob_def)
  have b: "\<forall>t d. cleanupJob t eid d \<notin> set (reminderQueue s')"
    using a c cleanupJob_is_cleanup by blast
  have e: "\<forall>t d. cleanupJob t eid d \<notin> set (reminderQueue (cancelEventReminders eid s))"
    by (simp add: cancelEventReminders_def cleanupJob_def)
  from a b e show ?thesis by blast
qed

text \<open>The cleanup job scheduled at the creation of the sample event is pending before the organizer
  moves the event to the instant 200 000 000, and no cleanup job is pending after.\<close>

theorem C10_no_cleanup_after_changeTime_witness:
  "cleanupJob 0 sample_id 100300000 \<in> set (reminderQueue sample_joined)
   \<and> fst (handleModalSubmission env_open 5 sample_id (click ''org'') (Some 200000000) sample_joined)
       = Inr TimeChanged
   \<and> list_all (\<lambda>j. \<not> startsWith (j_name j) ''cleanup_'')
       (reminderQueue
          (snd (handleModalSubmission env_open 5 sample_id (click ''org'') (Some 200000000)
                  sample_joined)))"
proof -
  let ?r = "handleModalSubmission env_open 5 sample_id (click ''org'') (Some 200000000) sample_joined"
  have f: "fst ?r = Inr TimeChanged"
    by (simp add: sample_joined_eq eval_defs)
  then have r: "?r = (Inr TimeChanged, snd ?r)" by (metis prod.collapse)
  have o: "list_all (\<lambda>j. j_eventId j = sample_id) (reminderQueue (snd ?r))"
    by (simp add: sample_joined_eq eval_defs)
  from C10_no_cleanup_after_changeTime [OF r]
  have "\<forall>j \<in> set (reminderQueue (snd ?r)). j_eventId j = sample_id \<longrightarrow>
            \<not> startsWith (j_name j) ''cleanup_''" by blast
  with o have "list_all (\<lambda>j. \<not> startsWith (j_name j) ''cleanup_'') (reminderQueue (snd ?r))"
    unfolding list_all_iff by blast
  moreover have "cleanupJob 0 sample_id 100300000 \<in> set (reminderQueue sample_joined)"
    by (simp add: sample_joined_eq)
  ultimately show ?thesis using f by simp
qed

subsection \<open>Rosters\<close>

lemma participating_iff: "participating u ev \<longleftrightarrow> u \<in> p_id ` set (participants ev)"
  by (auto simp: participating_def list_ex_iff)

lemma events_frame [simp]:
  "events (scheduleReminders now eid d ps s) = events s"
  "events (cancelParticipantReminders eid u s) = events s"
  "events (cancelEventReminders eid s) = events s"
  by (simp_all add: notify_def userSend_def saveDMMessageForEvent_def scheduleReminders_def
        cancelParticipantReminders_def cancelEventReminders_def)

lemma events_pushParticipant:
  "events (pushParticipant now eid ev u role cls s) =
     (events s)(e_id ev := Some (ev\<lparr>participants :=
        participants ev @ [\<lparr>p_id = u, p_role = role, p_class = cls\<rparr>]\<rparr>))"
  by (simp add: pushParticipant_def Let_def saveEventToRedis_def)

lemma events_assignRole:
  "events (assignRole ev u role cls s) =
     (events s)(e_id ev := Some (ev\<lparr>participants := assignFound u role cls (participants ev)\<rparr>))"
  by (simp add: assignRole_def saveEventToRedis_def)

lemma ids_assignFound [simp]: "map p_id (assignFound u role cls ps) = map p_id ps"
  by (induction ps) auto

lemma length_assignFound [simp]: "length (assignFound u role cls ps) = length ps"
  by (induction ps) auto

lemma others_assignFound [simp]:
  "filter (\<lambda>p. p_id p \<noteq> u) (assignFound u role cls ps) = filter (\<lambda>p. p_id p \<noteq> u) ps"
  by (induction ps) auto

lemma roles_assignFound:
  "list_all (\<lambda>p. p_role p \<in> R) ps \<Longrightarrow> role \<in> R \<Longrightarrow>
     list_all (\<lambda>p. p_role p \<in> R) (assignFound u role cls ps)"
  by (induction ps) auto

lemma assignFound_distinct:
  "distinct (map p_id ps) \<Longrightarrow>
     assignFound u role cls ps =
       map (\<lambda>p. if p_id p = u then p\<lparr>p_role := role, p_class := cls\<rparr> else p) ps"
proof (induction ps)
  case Nil
  show ?case by simp
next
  case (Cons p ps)
  show ?case
  proof (cases "p_id p = u")
    case True
    from Cons.prems have "p_id p \<notin> p_id ` set ps" by simp
    with True have "\<forall>q \<in> set ps. p_id q \<noteq> u" by blast
    then have "map (\<lambda>p. if p_id p = u then p\<lparr>p_role := role, p_class := cls\<rparr> else p) ps = ps"
      by (simp add: map_idI)
    with True show ?thesis by simp
  next
    case False
    with Cons show ?thesis by simp
  qed
qed

lemma find_Some_id:
  "find (\<lambda>p. p_id p = u) ps = Some p \<Longrightarrow> u \<in> p_id ` set ps \<and> p \<in> set ps \<and> p_id p = u"
  by (induction ps) (auto split: if_splits)

lemma find_listed:
  "u \<in> p_id ` set ps \<Longrightarrow> \<exists>p. find (\<lambda>p. p_id p = u) ps = Some p"
  by (induction ps) auto

lemma others_less:
  assumes "p \<in> set ps" "p_id p = u" "p_role p = role"
  shows "length (filter (\<lambda>p. p_role p = role \<and> p_id p \<noteq> u) ps) < roleCount role ps"
proof -
  have "filter (\<lambda>p. p_role p = role \<and> p_id p \<noteq> u) ps
          = filter (\<lambda>p. p_id p \<noteq> u) (filter (\<lambda>p. p_role p = role) ps)"
    by (simp add: conj_commute)
  moreover have "p \<in> set (filter (\<lambda>p. p_role p = role) ps)" using assms by simp
  ultimately show ?thesis
    unfolding roleCount_def using assms(2) by (metis (mono_tags, lifting) length_filter_less)
qed

lemma others_le: "length (filter (\<lambda>q. p_role q = r \<and> p_id q \<noteq> u) ps) \<le> roleCount r ps"
  unfolding roleCount_def by (induction ps) auto

lemma limit_cases:
  "limitReached role n =
     ((role = ''tank'' \<and> 2 \<le> n) \<or> (role = ''healer'' \<and> 2 \<le> n) \<or> (role = ''dps'' \<and> 4 \<le> n))"
  by (simp add: limitReached_def ROLE_LIMITS_def)

lemma limit_role: "limitReached role n \<Longrightarrow> role \<in> set classRoles"
  by (auto simp: limit_cases classRoles_def)

lemma classRoles_valid:
  "role \<in> set classRoles \<Longrightarrow> role \<in> set validRoles \<and> role \<noteq> ''blue_mage''
     \<and> CHR ''_'' \<notin> set role \<and> \<not> noClasses role"
  by (auto simp: classRoles_def validRoles_def noClasses_def ROLE_CLASS_def)

lemma valid_plain_role:
  "role \<in> set validRoles \<Longrightarrow> role \<noteq> ''blue_mage'' \<Longrightarrow> role \<in> set classRoles"
  by (auto simp: classRoles_def validRoles_def)

lemma hasRows_class:
  "hasRows (createClassButtons role eid) =
     (\<not> (case ROLE_CLASS role of None \<Rightarrow> True | Some cs \<Rightarrow> cs = []))"
  "hasRows (createRoleChangeClassButtons role eid) =
     (\<not> (case ROLE_CLASS role of None \<Rightarrow> True | Some cs \<Rightarrow> cs = []))"
  by (auto simp: hasRows_def createClassButtons_def createRoleChangeClassButtons_def
        rowsOf.simps [of 5] split: option.splits)

lemma hasRows_classRoles:
  "role \<in> set classRoles \<Longrightarrow> hasRows (createClassButtons role eid)"
  "role \<in> set classRoles \<Longrightarrow> hasRows (createRoleChangeClassButtons role eid)"
  by (auto simp: hasRows_class classRoles_def ROLE_CLASS_def)

text \<open>The role button of a role that has classes never changes the state: it opens the
  class prompt or is refused.\<close>

lemma roleAction_plain:
  assumes "role \<noteq> ''blue_mage''"
  shows "snd (roleAction en now eid role ia ev s) = s"
proof (cases "role \<in> set validRoles")
  case False
  then show ?thesis by (simp add: roleAction_def Let_def)
next
  case True
  from True assms have "role \<in> set classRoles" by (rule valid_plain_role)
  then have "\<not> noClasses role" "hasRows (createClassButtons role eid)"
    by (simp_all add: classRoles_valid hasRows_classRoles)
  then show ?thesis by (simp add: roleAction_def Let_def)
qed

lemma roleChangeAction_plain:
  assumes "role \<noteq> ''blue_mage''"
  shows "snd (roleChangeAction en now eid role ia ev s) = s"
proof (cases "role \<in> set validRoles")
  case False
  then show ?thesis by (simp add: roleChangeAction_def Let_def)
next
  case True
  from True assms have "role \<in> set classRoles" by (rule valid_plain_role)
  then have "\<not> noClasses role" "hasRows (createRoleChangeClassButtons role eid)"
    by (simp_all add: classRoles_valid hasRows_classRoles)
  then show ?thesis by (simp add: roleChangeAction_def Let_def split: option.splits)
qed

text \<open>The parser never yields a role with an underscore in its name.\<close>

lemma split_us_plain_parts:
  "split_us str = (a, rest) \<Longrightarrow> CHR ''_'' \<notin> set a \<and> (\<forall>x \<in> set rest. CHR ''_'' \<notin> set x)"
proof (induction str arbitrary: a rest)
  case Nil
  then show ?case by simp
next
  case (Cons c cs)
  obtain x xs where s: "split_us cs = (x, xs)" by (cases "split_us cs")
  from Cons.IH [OF s] have "CHR ''_'' \<notin> set x \<and> (\<forall>y \<in> set xs. CHR ''_'' \<notin> set y)" .
  with Cons.prems s show ?case by (auto split: if_splits)
qed

lemma parsed_role_plain:
  assumes "parseButtonInteraction customId = Inr p"
  shows "b_role p \<noteq> Some ''blue_mage''"
proof -
  obtain a rest where s: "split_us customId = (a, rest)" by (cases "split_us customId")
  from split_us_plain_parts [OF s] have r: "\<forall>x \<in> set rest. CHR ''_'' \<notin> set x" by simp
  have f: "first rest \<noteq> Some ''blue_mage''"
  proof (cases rest)
    case Nil
    then show ?thesis by (simp add: first_def)
  next
    case (Cons x xs)
    with r have "CHR ''_'' \<notin> set x" by simp
    then have "x \<noteq> ''blue_mage''" by auto
    with Cons show ?thesis by (simp add: first_def)
  qed
  from assms s f show ?thesis
    by (auto simp: parseButtonInteraction_def split: if_splits option.splits)
qed

subsection \<open>The roster invariants hold in every run\<close>

lemma storeOk_init: "storeOk init"
  by (simp add: storeOk_def init_def)

lemma roleCount_append:
  "roleCount r (ps @ [q]) = roleCount r ps + (if p_role q = r then 1 else 0)"
  by (simp add: roleCount_def)

lemma roleCount_filter_le: "roleCount r (filter Q ps) \<le> roleCount r ps"
  unfolding roleCount_def by (induction ps) auto

lemma quotasHold_push:
  assumes "quotasHold ps" and "\<not> limitReached role (roleCount role ps)"
  shows "quotasHold (ps @ [\<lparr>p_id = u, p_role = role, p_class = cls\<rparr>])"
proof -
  have t: "roleCount ''tank'' ps + (if role = ''tank'' then 1 else 0) \<le> 2"
    using assms by (cases "role = ''tank''") (simp_all add: quotasHold_def limit_cases)
  have h: "roleCount ''healer'' ps + (if role = ''healer'' then 1 else 0) \<le> 2"
    using assms by (cases "role = ''healer''") (simp_all add: quotasHold_def limit_cases)
  have d: "roleCount ''dps'' ps + (if role = ''dps'' then 1 else 0) \<le> 4"
    using assms by (cases "role = ''dps''") (simp_all add: quotasHold_def limit_cases)
  from t h d show ?thesis
    by (simp add: quotasHold_def roleCount_append)
qed

lemma eventOk_push:
  assumes ok: "eventOk eid ev" and u: "u \<notin> p_id ` set (participants ev)"
      and l: "length (participants ev) < 8"
      and r: "role \<in> set classRoles"
      and q: "\<not> (groupType ev = ''standard'' \<and>
                limitReached role (roleCount role (participants ev)))"
  shows "eventOk eid (ev\<lparr>participants :=
           participants ev @ [\<lparr>p_id = u, p_role = role, p_class = cls\<rparr>]\<rparr>)"
proof (cases "groupType ev = ''standard''")
  case True
  with ok q have "quotasHold (participants ev @ [\<lparr>p_id = u, p_role = role, p_class = cls\<rparr>])"
    by (intro quotasHold_push) (simp_all add: eventOk_def)
  with ok u l r True show ?thesis by (simp add: eventOk_def)
next
  case False
  with ok u l r show ?thesis by (simp add: eventOk_def)
qed

lemma quotasHold_filter:
  assumes "quotasHold ps"
  shows "quotasHold (filter Q ps)"
proof -
  have "\<And>r. roleCount r (filter Q ps) \<le> roleCount r ps" by (rule roleCount_filter_le)
  with assms show ?thesis unfolding quotasHold_def by (meson le_trans)
qed

lemma eventOk_filter:
  assumes ok: "eventOk eid ev"
  shows "eventOk eid (ev\<lparr>participants := filter (\<lambda>p. p_id p \<noteq> u) (participants ev)\<rparr>)"
proof -
  let ?ps = "filter (\<lambda>p. p_id p \<noteq> u) (participants ev)"
  from ok have d: "distinct (map p_id ?ps)" by (simp add: eventOk_def distinct_map_filter)
  have "length ?ps \<le> length (participants ev)" by (rule length_filter_le)
  with ok have l: "length ?ps \<le> 8" unfolding eventOk_def by linarith
  have q: "quotasHold ?ps" if "groupType ev = ''standard''"
    using ok that by (intro quotasHold_filter) (simp add: eventOk_def)
  from ok have i: "e_id ev = eid" "startsWith eid ''event_''" by (simp_all add: eventOk_def)
  from ok have r: "list_all (\<lambda>p. p_role p \<in> set classRoles) ?ps"
    by (simp add: eventOk_def list_all_iff)
  show ?thesis
  proof (cases "groupType ev = ''standard''")
    case True
    with d l q i r show ?thesis by (simp add: eventOk_def)
  next
    case False
    with d l i r show ?thesis by (simp add: eventOk_def)
  qed
qed

lemma roleCount_assignFound:
  "distinct (map p_id ps) \<Longrightarrow> u \<in> p_id ` set ps \<Longrightarrow>
     roleCount r (assignFound u role cls ps) =
       length (filter (\<lambda>q. p_role q = r \<and> p_id q \<noteq> u) ps) + (if r = role then 1 else 0)"
proof (induction ps)
  case Nil
  then show ?case by simp
next
  case (Cons p ps)
  show ?case
  proof (cases "p_id p = u")
    case True
    from Cons.prems have "p_id p \<notin> p_id ` set ps" by simp
    with True have "\<forall>q \<in> set ps. p_id q \<noteq> u" by blast
    then have "filter (\<lambda>q. p_role q = r \<and> p_id q \<noteq> u) ps = filter (\<lambda>q. p_role q = r) ps"
      by (intro filter_cong) auto
    with True show ?thesis by (simp add: roleCount_def)
  next
    case False
    with Cons.prems have "u \<in> p_id ` set ps" "distinct (map p_id ps)" by auto
    from Cons.IH [OF this(2) this(1)] False show ?thesis
      by (cases "r = role") (simp_all add: roleCount_def)
  qed
qed

lemma quotasHold_assign:
  assumes d: "distinct (map p_id ps)" and u: "u \<in> p_id ` set ps"
      and h: "quotasHold ps"
      and n: "\<not> limitReached role (length (filter (\<lambda>q. p_role q = role \<and> p_id q \<noteq> u) ps))"
  shows "quotasHold (assignFound u role cls ps)"
proof -
  let ?o = "\<lambda>r. length (filter (\<lambda>q. p_role q = r \<and> p_id q \<noteq> u) ps)"
  have c: "\<And>r. roleCount r (assignFound u role cls ps) = ?o r + (if r = role then 1 else 0)"
    by (rule roleCount_assignFound [OF d u])
  have o: "\<And>r. ?o r \<le> roleCount r ps" by (rule others_le)
  have t: "?o ''tank'' + (if ''tank'' = role then 1 else 0) \<le> 2"
    using h n o [of "''tank''"]
    by (cases "role = ''tank''") (auto simp: quotasHold_def limit_cases)
  have e: "?o ''healer'' + (if ''healer'' = role then 1 else 0) \<le> 2"
    using h n o [of "''healer''"]
    by (cases "role = ''healer''") (auto simp: quotasHold_def limit_cases)
  have p: "?o ''dps'' + (if ''dps'' = role then 1 else 0) \<le> 4"
    using h n o [of "''dps''"]
    by (cases "role = ''dps''") (auto simp: quotasHold_def limit_cases)
  show ?thesis
    unfolding quotasHold_def c using t e p by blast
qed

lemma eventOk_assign:
  assumes ok: "eventOk eid ev" and u: "u \<in> p_id ` set (participants ev)"
      and r: "role \<in> set classRoles"
      and q: "\<not> (groupType ev = ''standard'' \<and>
                limitReached role (length (filter (\<lambda>q. p_role q = role \<and> p_id q \<noteq> u)
                                             (participants ev))))"
  shows "eventOk eid (ev\<lparr>participants := assignFound u role cls (participants ev)\<rparr>)"
proof -
  from ok r have l: "list_all (\<lambda>p. p_role p \<in> set classRoles)
                       (assignFound u role cls (participants ev))"
    by (intro roles_assignFound) (simp_all add: eventOk_def)
  show ?thesis
  proof (cases "groupType ev = ''standard''")
    case True
    with ok q u have "quotasHold (assignFound u role cls (participants ev))"
      by (intro quotasHold_assign) (simp_all add: eventOk_def)
    with ok True l show ?thesis by (simp add: eventOk_def)
  next
    case False
    with ok l show ?thesis by (simp add: eventOk_def)
  qed
qed

lemma storeOk_cases:
  assumes "storeOk s"
      and "events s' = events s
           \<or> (\<exists>ev'. eventOk eid ev' \<and> events s' = (events s)(eid := Some ev'))
           \<or> events s' = (events s)(eid := None)"
  shows "storeOk s'"
  using assms by (auto simp: storeOk_def split: if_splits)

lemma storeOk_lookup: "storeOk s \<Longrightarrow> events s eid = Some ev \<Longrightarrow> eventOk eid ev"
  by (simp add: storeOk_def)

lemma no_mage_key: "storeOk s \<Longrightarrow> events s (''mage_'' @ eid) = None"
proof (rule ccontr)
  assume s: "storeOk s" and "events s (''mage_'' @ eid) \<noteq> None"
  then obtain ev where "events s (''mage_'' @ eid) = Some ev" by auto
  with s have "eventOk (''mage_'' @ eid) ev" by (rule storeOk_lookup)
  then show False by (simp add: eventOk_def startsWith_def)
qed

lemma withdrawAction_ok:
  assumes s: "storeOk s" and ev: "events s eid = Some ev"
  shows "storeOk (snd (withdrawAction en now eid ia ev s))"
proof -
  from s ev have ok: "eventOk eid ev" by (rule storeOk_lookup)
  then have i: "e_id ev = eid" by (simp add: eventOk_def)
  let ?ev' = "ev\<lparr>participants := filter (\<lambda>p. p_id p \<noteq> i_user ia) (participants ev)\<rparr>"
  have ok': "eventOk eid ?ev'" by (rule eventOk_filter [OF ok])
  have "events (snd (withdrawAction en now eid ia ev s)) = events s
        \<or> events (snd (withdrawAction en now eid ia ev s)) = (events s)(eid := Some ?ev')"
    by (simp add: withdrawAction_def Let_def saveEventToRedis_def i)
  with ok' show ?thesis by (intro storeOk_cases [OF s, of _ eid]) blast
qed

lemma classAction_ok:
  assumes s: "storeOk s" and ev: "events s eid = Some ev"
  shows "storeOk (snd (classAction en now eid role cls ia ev s))"
proof -
  from s ev have ok: "eventOk eid ev" by (rule storeOk_lookup)
  then have i: "e_id ev = eid" by (simp add: eventOk_def)
  show ?thesis
  proof (cases "role \<notin> set classRoles \<or> invalidClass role cls
                \<or> participating (i_user ia) ev
                \<or> length (participants ev) \<ge> 8
                \<or> (groupType ev = ''standard''
                    \<and> limitReached role (roleCount role (participants ev)))")
    case True
    then have "snd (classAction en now eid role cls ia ev s) = s"
      by (auto simp: classAction_def Let_def roleCount_def)
    with s show ?thesis by simp
  next
    case False
    let ?ev' = "ev\<lparr>participants :=
                    participants ev @ [\<lparr>p_id = i_user ia, p_role = role, p_class = Some cls\<rparr>]\<rparr>"
    from False have ok': "eventOk eid ?ev'"
      by (intro eventOk_push [OF ok]) (auto simp: participating_iff)
    from False have "events (snd (classAction en now eid role cls ia ev s))
                       = (events s)(eid := Some ?ev')"
      by (auto simp: classAction_def Let_def roleCount_def events_pushParticipant i)
    with ok' show ?thesis by (intro storeOk_cases [OF s, of _ eid]) blast
  qed
qed

lemma roleChangeClassAction_ok:
  assumes s: "storeOk s" and ev: "events s eid = Some ev"
  shows "storeOk (snd (roleChangeClassAction en now eid role cls ia ev s))"
proof -
  from s ev have ok: "eventOk eid ev" by (rule storeOk_lookup)
  then have i: "e_id ev = eid" by (simp add: eventOk_def)
  let ?o = "length (filter (\<lambda>q. p_role q = role \<and> p_id q \<noteq> i_user ia) (participants ev))"
  show ?thesis
  proof (cases "find (\<lambda>p. p_id p = i_user ia) (participants ev)")
    case None
    then have "snd (roleChangeClassAction en now eid role cls ia ev s) = s"
      by (simp add: roleChangeClassAction_def Let_def)
    with s show ?thesis by simp
  next
    case (Some p)
    from find_Some_id [OF Some] have u: "i_user ia \<in> p_id ` set (participants ev)" by blast
    show ?thesis
    proof (cases "role \<notin> set classRoles \<or> invalidClass role cls
                  \<or> (groupType ev = ''standard'' \<and> limitReached role ?o)")
      case True
      with Some have "snd (roleChangeClassAction en now eid role cls ia ev s) = s"
        by (auto simp: roleChangeClassAction_def Let_def)
      with s show ?thesis by simp
    next
      case False
      let ?ev' = "ev\<lparr>participants :=
                      assignFound (i_user ia) role (Some cls) (participants ev)\<rparr>"
      from False have ok': "eventOk eid ?ev'"
        by (intro eventOk_assign [OF ok u]) auto
      from False Some have "events (snd (roleChangeClassAction en now eid role cls ia ev s))
                      = (events s)(eid := Some ?ev')"
        by (auto simp: roleChangeClassAction_def Let_def events_assignRole i)
      with ok' show ?thesis by (intro storeOk_cases [OF s, of _ eid]) blast
    qed
  qed
qed

lemma deleteAction_ok:
  assumes s: "storeOk s"
  shows "storeOk (snd (deleteAction en now eid ia ev s))"
proof -
  have "events (snd (deleteAction en now eid ia ev s)) = events s
        \<or> events (snd (deleteAction en now eid ia ev s)) = (events s)(eid := None)"
    by (simp add: deleteAction_def Let_def deleteEventFromRedis_def split: option.splits)
  then show ?thesis by (intro storeOk_cases [OF s, of _ eid]) blast
qed

lemma handleParsed_ok:
  assumes s: "storeOk s" and r: "b_role p \<noteq> Some ''blue_mage''"
  shows "storeOk (snd (handleParsed en now p ia s))"
proof (cases "events s (b_eventId p)")
  case None
  with s show ?thesis by (simp add: parsed_missing)
next
  case (Some ev)
  let ?eid = "b_eventId p"
  have w: "storeOk (snd (withdrawAction en now ?eid ia ev s))"
    by (rule withdrawAction_ok [OF s Some])
  have c: "\<And>role cls. storeOk (snd (classAction en now ?eid role cls ia ev s))"
    by (rule classAction_ok [OF s Some])
  have rc: "\<And>role cls. storeOk (snd (roleChangeClassAction en now ?eid role cls ia ev s))"
    by (rule roleChangeClassAction_ok [OF s Some])
  have d: "storeOk (snd (deleteAction en now ?eid ia ev s))"
    by (rule deleteAction_ok [OF s])
  have ro: "\<And>role. b_role p = Some role \<Longrightarrow>
             storeOk (snd (roleAction en now ?eid role ia ev s))
             \<and> storeOk (snd (roleChangeAction en now ?eid role ia ev s))"
    using r s by (simp add: roleAction_plain roleChangeAction_plain)
  from Some w c rc d ro s show ?thesis
    by (simp add: handleParsed_def getEventFromRedis_def Let_def changeRoleAction_def
          participateAction_def changeTimeAction_def split: option.splits)
qed

lemma handleButtonInteraction_ok:
  assumes s: "storeOk s"
  shows "storeOk (snd (handleButtonInteraction en now customId ia s))"
proof (cases "parseButtonInteraction customId")
  case (Inl m)
  with s show ?thesis by (simp add: handleButtonInteraction_def Let_def)
next
  case (Inr p)
  from parsed_role_plain [OF Inr] have "storeOk (snd (handleParsed en now p ia s))"
    by (rule handleParsed_ok [OF s])
  with Inr s show ?thesis by (simp add: handleButtonInteraction_def Let_def)
qed

lemma handleModalSubmission_ok:
  assumes s: "storeOk s"
  shows "storeOk (snd (handleModalSubmission en now eid ia parsed s))"
proof (cases "events s eid")
  case None
  with s show ?thesis by (simp add: handleModalSubmission_def getEventFromRedis_def)
next
  case (Some ev)
  with s have ok: "eventOk eid ev" by (simp add: storeOk_lookup)
  then have i: "e_id ev = eid" by (simp add: eventOk_def)
  have ok': "\<And>d. eventOk eid (ev\<lparr>e_date := d\<rparr>)" using ok by (simp add: eventOk_def)
  have "events (snd (handleModalSubmission en now eid ia parsed s)) = events s
      \<or> (\<exists>d. events (snd (handleModalSubmission en now eid ia parsed s))
                 = (events s)(eid := Some (ev\<lparr>e_date := d\<rparr>)))"
    using Some
    by (auto simp: handleModalSubmission_def getEventFromRedis_def Let_def saveEventToRedis_def i
          split: option.splits)
  with ok' show ?thesis by (intro storeOk_cases [OF s, of _ eid]) blast
qed

lemma newEventId_form: "startsWith (newEventId now random) ''event_''"
  by (simp add: newEventId_def startsWith_def)

lemma handleCreateEvent_ok:
  assumes s: "storeOk s"
  shows "storeOk (snd (handleCreateEvent en now c s))"
proof -
  let ?eid = "newEventId now (c_random c)"
  let ?ev = "\<lambda>d m. \<lparr>e_id = ?eid, e_type = c_type c, e_date = d,
                organizer = c_user c, description = c_description c,
                groupType = (case c_group_type c of None \<Rightarrow> ''standard'' | Some g \<Rightarrow> g),
                participants = [], messageId = Some m\<rparr>"
  have ok': "\<And>d m. eventOk ?eid (?ev d m)"
    by (simp add: eventOk_def quotasHold_def roleCount_def newEventId_form)
  have "events (snd (handleCreateEvent en now c s)) = events s
      \<or> (\<exists>d m. events (snd (handleCreateEvent en now c s))
                 = (events s)(?eid := Some (?ev d m)))"
    by (auto simp: handleCreateEvent_def Let_def saveEventToRedis_def scheduleEventCleanup_def
          split: option.splits)
  with ok' show ?thesis by (intro storeOk_cases [OF s, of _ ?eid]) blast
qed

lemma events_pruneOne [simp]: "events (pruneOne en d s) = events s"
  by (simp add: pruneOne_def)

lemma events_fold_pruneOne [simp]: "events (fold (pruneOne en) ds s) = events s"
  by (induction ds arbitrary: s) simp_all

lemma events_prune [simp]: "events (pruneDMsForCompletedEvent en now eid ev s) = events s"
  by (simp add: pruneDMsForCompletedEvent_def Let_def deleteDMMessagesForEvent_def)

lemma reminderWorker_ok:
  assumes s: "storeOk s"
  shows "storeOk (snd (reminderWorker en now jb s))"
proof -
  have "events (snd (reminderWorker en now jb s)) = events s
      \<or> events (snd (reminderWorker en now jb s)) = (events s)(j_eventId jb := None)"
    by (auto simp: reminderWorker_def Let_def getEventFromRedis_def deleteEventFromRedis_def
          userSend_def split: option.splits)
  then show ?thesis by (intro storeOk_cases [OF s, of _ "j_eventId jb"]) blast
qed

lemma step_ok: "storeOk s \<Longrightarrow> storeOk (step en req s)"
proof -
  assume s: "storeOk s"
  obtain now r where req: "req = (now, r)" by (cases req)
  show ?thesis
  proof (cases r)
    case (CreateEvent c)
    with req handleCreateEvent_ok [OF s] show ?thesis by simp
  next
    case (Button customId ia)
    with req handleButtonInteraction_ok [OF s] show ?thesis by simp
  next
    case (ChangeTimeModal eid ia parsed)
    with req handleModalSubmission_ok [OF s] show ?thesis by simp
  next
    case (JobFires jb)
    have "storeOk (snd (reminderWorker en now jb s))" by (rule reminderWorker_ok [OF s])
    then show ?thesis
      unfolding req JobFires by (simp add: Let_def storeOk_def)
  qed
qed

lemma run_ok: "storeOk s \<Longrightarrow> storeOk (run en reqs s)"
  unfolding run_def by (induction reqs arbitrary: s) (simp_all add: step_ok)

lemma run_event:
  assumes "events (run en reqs init) eid = Some ev"
  shows "eventOk eid ev"
  using run_ok [OF storeOk_init, of en reqs] assms by (rule storeOk_lookup)

text \<open>In particular no roster of a run holds a blue mage: every participant is a tank, a
  healer or a DPS.\<close>

lemma run_roles:
  assumes "events (run en reqs init) eid = Some ev" and "p \<in> set (participants ev)"
  shows "p_role p \<in> set classRoles"
  using run_event [OF assms(1)] assms(2) by (simp add: eventOk_def list_all_iff)

subsection \<open>Joining, withdrawing and changing role\<close>

lemma sample_runs:
  "sample_joined =
     run env_open
       [(0, CreateEvent (sample_creation None)),
        (0, Button (classButtonId ''tank'' ''Paladin'' sample_id) (click ''u''))] init"
  "sample_two =
     run env_open
       [(0, CreateEvent (sample_creation None)),
        (0, Button (classButtonId ''tank'' ''Paladin'' sample_id) (click ''u'')),
        (1, Button (classButtonId ''healer'' ''Sage'' sample_id) (click ''v''))] init"
  by (simp_all add: sample_two_def sample_joined_def sample_created_def run_def)

lemma sample_ids:
  "eventButtonId ''participate'' sample_id = ''participate_event_0_k3x9q''"
  "eventButtonId ''withdraw'' sample_id = ''withdraw_event_0_k3x9q''"
  "roleButtonId ''tank'' sample_id = ''role_tank_event_0_k3x9q''"
  "roleButtonId ''blue_mage'' sample_id = ''role_blue_mage_event_0_k3x9q''"
  "roleChangeButtonId ''tank'' sample_id = ''rolechange_tank_event_0_k3x9q''"
  "classButtonId ''tank'' ''Paladin'' sample_id = ''class_tank_Paladin_event_0_k3x9q''"
  "classButtonId ''tank'' ''Gunbreaker'' sample_id = ''class_tank_Gunbreaker_event_0_k3x9q''"
  "classButtonId ''tank'' ''Dark Knight'' sample_id = ''class_tank_Dark_Knight_event_0_k3x9q''"
  "classButtonId ''dps'' ''Ninja'' sample_id = ''class_dps_Ninja_event_0_k3x9q''"
  "roleChangeClassButtonId ''tank'' ''Warrior'' sample_id
     = ''rolechangeclass_tank_Warrior_event_0_k3x9q''"
  "roleChangeClassButtonId ''tank'' ''Paladin'' sample_id
     = ''rolechangeclass_tank_Paladin_event_0_k3x9q''"
  by (simp_all add: eventButtonId_def roleButtonId_def roleChangeButtonId_def classButtonId_def
        roleChangeClassButtonId_def sample_id_def whitespace_def)

lemma sample_two_events:
  "events sample_two sample_id = Some (sample_event\<lparr>participants :=
      [\<lparr>p_id = ''u'', p_role = ''tank'', p_class = Some ''Paladin''\<rparr>,
       \<lparr>p_id = ''v'', p_role = ''healer'', p_class = Some ''Sage''\<rparr>]\<rparr>)"
  by (simp add: sample_two_def sample_joined_eq button_defs eval_defs)

lemma sample_light_events:
  "events sample_light sample_id =
     Some (sample_event\<lparr>groupType := ''light_party'', participants :=
      [\<lparr>p_id = ''a'', p_role = ''dps'', p_class = Some ''Black Mage''\<rparr>,
       \<lparr>p_id = ''b'', p_role = ''tank'', p_class = Some ''Paladin''\<rparr>,
       \<lparr>p_id = ''c'', p_role = ''healer'', p_class = Some ''Sage''\<rparr>,
       \<lparr>p_id = ''d'', p_role = ''dps'', p_class = Some ''Monk''\<rparr>]\<rparr>)"
  by (simp add: sample_light_def light_party_requests_def button_defs eval_defs)

lemma sample_full_events:
  "events sample_full sample_id = Some (sample_event\<lparr>participants :=
      [\<lparr>p_id = ''t1'', p_role = ''tank'', p_class = Some ''Paladin''\<rparr>,
       \<lparr>p_id = ''t2'', p_role = ''tank'', p_class = Some ''Dark Knight''\<rparr>,
       \<lparr>p_id = ''h1'', p_role = ''healer'', p_class = Some ''Sage''\<rparr>,
       \<lparr>p_id = ''h2'', p_role = ''healer'', p_class = Some ''Scholar''\<rparr>,
       \<lparr>p_id = ''d1'', p_role = ''dps'', p_class = Some ''Monk''\<rparr>,
       \<lparr>p_id = ''d2'', p_role = ''dps'', p_class = Some ''Ninja''\<rparr>,
       \<lparr>p_id = ''d3'', p_role = ''dps'', p_class = Some ''Bard''\<rparr>,
       \<lparr>p_id = ''d4'', p_role = ''dps'', p_class = Some ''Viper''\<rparr>]\<rparr>)"
  by (simp add: sample_full_def standard_requests_def button_defs eval_defs)

lemma sample_tanks_events:
  "events sample_tanks sample_id = Some (sample_event\<lparr>participants :=
      [\<lparr>p_id = ''t1'', p_role = ''tank'', p_class = Some ''Paladin''\<rparr>,
       \<lparr>p_id = ''t2'', p_role = ''tank'', p_class = Some ''Dark Knight''\<rparr>]\<rparr>)"
  by (simp add: sample_tanks_def standard_requests_def button_defs eval_defs)

text \<open>The press of the blue-mage button of the role prompt: the parser reads the event
  id \<open>mage_<eventId>\<close> and the role \<open>blue\<close>, so the handler looks for an event that
  no run stores, and would refuse the role if it found one.\<close>

lemma blue_mage_press:
  "handleButtonInteraction en now (roleButtonId ''blue_mage'' eid) ia s
     = (if events s (''mage_'' @ eid) = None then (Inl NotFound, s) else (Inl InvalidRole, s))"
  by (simp add: handle_blue_mage_button handleParsed_def getEventFromRedis_def roleAction_def
        validRoles_def Let_def split: option.splits)

lemma blue_mage_press_run:
  "handleButtonInteraction en now (roleButtonId ''blue_mage'' eid) ia (run en0 reqs init)
     = (Inl NotFound, run en0 reqs init)"
  using no_mage_key [OF run_ok [OF storeOk_init], where eid = eid and en1 = en0 and reqs1 = reqs]
  by (simp only: blue_mage_press simp_thms if_True)

lemma join_step_listed:
  assumes "events s (b_eventId p) = Some ev"
      and "i_user ia \<in> p_id ` set (participants ev)"
      and "b_action p \<in> set [''participate'', ''role'', ''class'']"
  shows "\<exists>e. handleParsed en now p ia s = (Inl e, s)"
  using assms
  by (auto simp: handleParsed_def getEventFromRedis_def Let_def participateAction_def
        roleAction_def classAction_def participating_iff split: option.splits)

text \<open>
  Claim C6 says that a join attempt by a user who is already in the participant list is
  rejected with \<open>AlreadyParticipating\<close> and leaves the list as it was. For the user
  \<open>i_user ia\<close>, listed in the event stored under \<open>eid\<close>:
  \<^item> the \<open>participate\<close> button, the role buttons \<open>tank\<close>, \<open>healer\<close> and \<open>dps\<close> and every
    class button are answered \<open>AlreadyParticipating\<close>, and the state is unchanged;
  \<^item> every press that the parser reads as a step of a join to this event is refused, and
    the state is unchanged;
  \<^item> the press of the blue-mage button is refused too, with the state unchanged, but not
    with \<open>AlreadyParticipating\<close>: the custom id \<open>role_blue_mage_<eventId>\<close> is split at
    every underscore, so the handler looks up the event \<open>mage_<eventId>\<close> and answers
    \<open>NotFound\<close> (it would answer \<open>InvalidRole\<close> for the role \<open>blue\<close> if such an event
    were stored). In every state of a run from the empty store the answer is \<open>NotFound\<close>.
\<close>

theorem C6_second_join_rejected:
  assumes "events s eid = Some ev" and "i_user ia \<in> p_id ` set (participants ev)"
  shows "handleButtonInteraction en now (eventButtonId ''participate'' eid) ia s
           = (Inl AlreadyParticipating, s)
   \<and> (role \<in> set classRoles \<longrightarrow>
        handleButtonInteraction en now (roleButtonId role eid) ia s
          = (Inl AlreadyParticipating, s))
   \<and> (role \<in> set classRoles \<and> \<not> invalidClass role cls \<and> startsWith eid ''event_'' \<longrightarrow>
        handleButtonInteraction en now (classButtonId role cls eid) ia s
          = (Inl AlreadyParticipating, s))
   \<and> (\<forall>customId p. \<not> startsWith customId ''verifyMember_''
          \<and> parseButtonInteraction customId = Inr p \<and> b_eventId p = eid
          \<and> b_action p \<in> set [''participate'', ''role'', ''class''] \<longrightarrow>
          (\<exists>e. handleButtonInteraction en now customId ia s = (Inl e, s)))
   \<and> handleButtonInteraction en now (roleButtonId ''blue_mage'' eid) ia s
        = (if events s (''mage_'' @ eid) = None then (Inl NotFound, s)
           else (Inl InvalidRole, s))
   \<and> (s = run en0 reqs init \<longrightarrow>
        handleButtonInteraction en now (roleButtonId ''blue_mage'' eid) ia s
          = (Inl NotFound, s))"
proof -
  note ev = assms(1)
  have 1: "handleButtonInteraction en now (eventButtonId ''participate'' eid) ia s
           = (Inl AlreadyParticipating, s)"
    using assms(2)
    by (simp add: handle_event_button parsed_branch [OF ev] participateAction_def
          participating_iff)
  have 2: "role \<in> set classRoles \<longrightarrow>
        handleButtonInteraction en now (roleButtonId role eid) ia s
          = (Inl AlreadyParticipating, s)"
    using assms(2)
    by (simp add: handle_role_button classRoles_valid parsed_branch [OF ev] roleAction_def
          participating_iff)
  have 3: "role \<in> set classRoles \<and> \<not> invalidClass role cls \<and> startsWith eid ''event_'' \<longrightarrow>
        handleButtonInteraction en now (classButtonId role cls eid) ia s
          = (Inl AlreadyParticipating, s)"
    using assms(2)
    by (simp add: handle_class_button parsed_branch [OF ev] classAction_def participating_iff)
  have 4: "\<forall>customId p. \<not> startsWith customId ''verifyMember_''
          \<and> parseButtonInteraction customId = Inr p \<and> b_eventId p = eid
          \<and> b_action p \<in> set [''participate'', ''role'', ''class''] \<longrightarrow>
          (\<exists>e. handleButtonInteraction en now customId ia s = (Inl e, s))"
  proof (intro allI impI)
    fix customId p
    assume a: "\<not> startsWith customId ''verifyMember_''
          \<and> parseButtonInteraction customId = Inr p \<and> b_eventId p = eid
          \<and> b_action p \<in> set [''participate'', ''role'', ''class'']"
    then have "events s (b_eventId p) = Some ev" using ev by simp
    from join_step_listed [OF this assms(2), of en now] a
    show "\<exists>e. handleButtonInteraction en now customId ia s = (Inl e, s)"
      by (simp add: handleButtonInteraction_def)
  qed
  have 5: "handleButtonInteraction en now (roleButtonId ''blue_mage'' eid) ia s
        = (if events s (''mage_'' @ eid) = None then (Inl NotFound, s)
           else (Inl InvalidRole, s))"
    by (rule blue_mage_press)
  have 6: "s = run en0 reqs init \<longrightarrow>
        handleButtonInteraction en now (roleButtonId ''blue_mage'' eid) ia s
          = (Inl NotFound, s)"
    by (simp add: blue_mage_press_run)
  from 1 2 3 4 5 6 show ?thesis by blast
qed

text \<open>\<open>u\<close> is listed in the sample event. The presses of \<open>participate\<close>, of the role
  button \<open>tank\<close> and of the class button \<open>Paladin\<close> are answered \<open>AlreadyParticipating\<close>;
  the press of the blue-mage button, whose custom id is
  \<open>role_blue_mage_event_0_k3x9q\<close>, is answered \<open>NotFound\<close>. Nothing changes.\<close>

theorem C6_second_join_rejected_witness:
  "events sample_joined sample_id = Some sample_event
   \<and> ''u'' \<in> p_id ` set (participants sample_event)
   \<and> handleButtonInteraction env_open 7 ''participate_event_0_k3x9q'' (click ''u'')
        sample_joined = (Inl AlreadyParticipating, sample_joined)
   \<and> handleButtonInteraction env_open 7 ''role_tank_event_0_k3x9q'' (click ''u'')
        sample_joined = (Inl AlreadyParticipating, sample_joined)
   \<and> handleButtonInteraction env_open 7 ''class_tank_Paladin_event_0_k3x9q'' (click ''u'')
        sample_joined = (Inl AlreadyParticipating, sample_joined)
   \<and> handleButtonInteraction env_open 7 ''role_blue_mage_event_0_k3x9q'' (click ''u'')
        sample_joined = (Inl NotFound, sample_joined)"
proof -
  have a: "events sample_joined sample_id = Some sample_event"
    by (simp add: sample_joined_eq)
  have b: "i_user (click ''u'') \<in> p_id ` set (participants sample_event)"
    by (simp add: click_def sample_event_def)
  have c: "''tank'' \<in> set classRoles \<and> \<not> invalidClass ''tank'' ''Paladin''
           \<and> startsWith sample_id ''event_''"
    by (simp add: class_facts sample_id_form)
  note T = C6_second_join_rejected [OF a b, where role = "''tank''" and cls = "''Paladin''"
      and en = env_open and now = 7 and ?en0.0 = env_open
      and reqs = "[(0, CreateEvent (sample_creation None)),
        (0, Button (classButtonId ''tank'' ''Paladin'' sample_id) (click ''u''))]"]
  from T c sample_runs(1)
  have "handleButtonInteraction env_open 7 (eventButtonId ''participate'' sample_id)
          (click ''u'') sample_joined = (Inl AlreadyParticipating, sample_joined)
      \<and> handleButtonInteraction env_open 7 (roleButtonId ''tank'' sample_id) (click ''u'')
          sample_joined = (Inl AlreadyParticipating, sample_joined)
      \<and> handleButtonInteraction env_open 7 (classButtonId ''tank'' ''Paladin'' sample_id)
          (click ''u'') sample_joined = (Inl AlreadyParticipating, sample_joined)
      \<and> handleButtonInteraction env_open 7 (roleButtonId ''blue_mage'' sample_id)
          (click ''u'') sample_joined = (Inl NotFound, sample_joined)"
    by blast
  with a b show ?thesis by (simp add: sample_ids click_def)
qed

lemma withdraw_result:
  assumes "events s eid = Some ev" and "e_id ev = eid"
      and "i_user ia \<in> p_id ` set (participants ev)"
  shows "\<exists>s1. handleButtonInteraction en now (eventButtonId ''withdraw'' eid) ia s
                 = (Inr Withdrawn, s1)
     \<and> events s1 = (events s)(eid := Some (ev\<lparr>participants :=
           filter (\<lambda>p. p_id p \<noteq> i_user ia) (participants ev)\<rparr>))"
proof -
  from assms(3) have "length (filter (\<lambda>p. p_id p \<noteq> i_user ia) (participants ev))
      \<noteq> length (participants ev)"
    by (metis (mono_tags, lifting) filter_False filter_True imageE length_filter_less less_irrefl_nat
        filter_id_conv)
  with assms(1,2) show ?thesis
    by (simp add: handle_event_button parsed_branch [OF assms(1)] withdrawAction_def Let_def
        saveEventToRedis_def cancelParticipantReminders_def)
qed

lemma class_join_parsed:
  assumes "events s eid = Some ev" and "e_id ev = eid"
      and "i_user ia \<notin> p_id ` set (participants ev)"
      and "role \<in> set classRoles" and "\<not> invalidClass role cls"
      and "length (participants ev) < 8"
      and "\<not> (groupType ev = ''standard'' \<and> limitReached role (roleCount role (participants ev)))"
  shows "\<exists>s'. handleParsed en now
                 \<lparr>b_action = ''class'', b_eventId = eid, b_role = Some role,
                  b_className = Some cls\<rparr> ia s = (Inr Joined, s')
     \<and> events s' = (events s)(eid := Some (ev\<lparr>participants :=
           participants ev @ [\<lparr>p_id = i_user ia, p_role = role, p_class = Some cls\<rparr>]\<rparr>))"
  using assms
  by (simp add: parsed_branch [OF assms(1)] classAction_def Let_def
        participating_iff events_pushParticipant roleCount_def)

lemma class_join_result:
  assumes "events s eid = Some ev" and "e_id ev = eid"
      and "i_user ia \<notin> p_id ` set (participants ev)"
      and "role \<in> set classRoles" and "\<not> invalidClass role cls"
      and "length (participants ev) < 8"
      and "\<not> (groupType ev = ''standard'' \<and> limitReached role (roleCount role (participants ev)))"
      and "startsWith eid ''event_''"
  shows "\<exists>s'. handleButtonInteraction en now (classButtonId role cls eid) ia s = (Inr Joined, s')
     \<and> events s' = (events s)(eid := Some (ev\<lparr>participants :=
           participants ev @ [\<lparr>p_id = i_user ia, p_role = role, p_class = Some cls\<rparr>]\<rparr>))"
  using class_join_parsed [OF assms(1-7)] assms(4,5,8)
  by (simp add: handle_class_button)

text \<open>
  Claim C7 says that a participant who withdraws and then joins again, capacity and
  quota allowing, succeeds and is placed at the end of the roster. For a listed
  participant of an event stored under its own id, an id of the generated form, as every
  event of a run is (\<open>run_event\<close>):
  \<^item> the press of \<open>withdraw\<close> succeeds and leaves the former roster without that user;
  \<^item> a new join by a class button, with a role and class that are valid and with capacity
    and quota allowing the join on the roster left by the withdrawal, succeeds, and the
    roster is then the former roster without that user followed by the user's new record
    in last position: the user does not get the former position back;
  \<^item> a new join as blue mage does not succeed, although no quota applies to that role
    and the roster has room: the press of the blue-mage button is answered \<open>NotFound\<close>
    (\<open>blue_mage_press\<close>) and the user stays out of the roster.
\<close>

theorem C7_withdraw_then_join_appends:
  assumes ev: "events s eid = Some ev" "e_id ev = eid"
      and form: "startsWith eid ''event_''"
      and u: "i_user ia \<in> p_id ` set (participants ev)"
      and rest: "rest = filter (\<lambda>p. p_id p \<noteq> i_user ia) (participants ev)"
      and valid: "role \<in> set classRoles" "\<not> invalidClass role cls"
      and cap: "length rest < 8"
      and quota: "\<not> (groupType ev = ''standard'' \<and> limitReached role (roleCount role rest))"
  shows "\<exists>s1 s2.
       handleButtonInteraction en t1 (eventButtonId ''withdraw'' eid) ia s = (Inr Withdrawn, s1)
     \<and> map_option participants (events s1 eid) = Some rest
     \<and> handleButtonInteraction en t2 (classButtonId role cls eid) ia s1 = (Inr Joined, s2)
     \<and> map_option participants (events s2 eid)
         = Some (rest @ [\<lparr>p_id = i_user ia, p_role = role, p_class = Some cls\<rparr>])
     \<and> handleButtonInteraction en t2 (roleButtonId ''blue_mage'' eid) ia s1
         = (if events s (''mage_'' @ eid) = None then (Inl NotFound, s1)
            else (Inl InvalidRole, s1))
     \<and> (s = run en0 reqs init \<longrightarrow>
          handleButtonInteraction en t2 (roleButtonId ''blue_mage'' eid) ia s1
            = (Inl NotFound, s1))"
proof -
  let ?ev1 = "ev\<lparr>participants := rest\<rparr>"
  from withdraw_result [OF ev u, of en t1] obtain s1 where
    w: "handleButtonInteraction en t1 (eventButtonId ''withdraw'' eid) ia s = (Inr Withdrawn, s1)"
    and e1: "events s1 = (events s)(eid := Some ?ev1)"
    unfolding rest by blast
  have a: "events s1 eid = Some ?ev1" by (simp add: e1)
  have r1: "map_option participants (events s1 eid) = Some rest" by (simp add: a)
  have b: "e_id ?ev1 = eid" by (simp add: ev)
  have c: "i_user ia \<notin> p_id ` set (participants ?ev1)" by (auto simp: rest)
  have d: "length (participants ?ev1) < 8" using cap by simp
  have q: "\<not> (groupType ?ev1 = ''standard''
              \<and> limitReached role (roleCount role (participants ?ev1)))"
    using quota by simp
  from class_join_result [OF a b c valid d q form, of en t2] obtain s2 where
    j: "handleButtonInteraction en t2 (classButtonId role cls eid) ia s1 = (Inr Joined, s2)"
    and e2: "map_option participants (events s2 eid)
         = Some (rest @ [\<lparr>p_id = i_user ia, p_role = role, p_class = Some cls\<rparr>])"
    by auto
  have m: "events s1 (''mage_'' @ eid) = events s (''mage_'' @ eid)"
    by (simp add: e1)
  have k: "handleButtonInteraction en t2 (roleButtonId ''blue_mage'' eid) ia s1
         = (if events s (''mage_'' @ eid) = None then (Inl NotFound, s1)
            else (Inl InvalidRole, s1))"
    by (simp only: blue_mage_press m)
  have n: "s = run en0 reqs init \<longrightarrow>
          handleButtonInteraction en t2 (roleButtonId ''blue_mage'' eid) ia s1
            = (Inl NotFound, s1)"
  proof
    assume "s = run en0 reqs init"
    then have "storeOk s" by (simp add: run_ok storeOk_init)
    then have "events s (''mage_'' @ eid) = None" by (rule no_mage_key)
    with k show "handleButtonInteraction en t2 (roleButtonId ''blue_mage'' eid) ia s1
            = (Inl NotFound, s1)" by (simp only: simp_thms if_True)
  qed
  from w r1 j e2 k n show ?thesis by blast
qed

text \<open>\<open>u\<close>, first of the roster \<open>[u, v]\<close>, withdraws. Joining again as tank (Paladin)
  gives the roster \<open>[v, u]\<close>; pressing the blue-mage button instead is answered
  \<open>NotFound\<close> and leaves the roster \<open>[v]\<close>.\<close>

theorem C7_withdraw_then_join_appends_witness:
  "map_option (map p_id \<circ> participants) (events sample_two sample_id) = Some [''u'', ''v'']
   \<and> (\<exists>s1 s2.
        handleButtonInteraction env_open 8 ''withdraw_event_0_k3x9q'' (click ''u'') sample_two
          = (Inr Withdrawn, s1)
      \<and> map_option (map p_id \<circ> participants) (events s1 sample_id) = Some [''v'']
      \<and> handleButtonInteraction env_open 9 ''class_tank_Paladin_event_0_k3x9q'' (click ''u'') s1
          = (Inr Joined, s2)
      \<and> map_option (map p_id \<circ> participants) (events s2 sample_id) = Some [''v'', ''u'']
      \<and> handleButtonInteraction env_open 9 ''role_blue_mage_event_0_k3x9q'' (click ''u'') s1
          = (Inl NotFound, s1))"
proof -
  let ?ev = "sample_event\<lparr>participants :=
      [\<lparr>p_id = ''u'', p_role = ''tank'', p_class = Some ''Paladin''\<rparr>,
       \<lparr>p_id = ''v'', p_role = ''healer'', p_class = Some ''Sage''\<rparr>]\<rparr>"
  let ?rest = "[\<lparr>p_id = ''v'', p_role = ''healer'', p_class = Some ''Sage''\<rparr>]"
  have a: "events sample_two sample_id = Some ?ev" by (rule sample_two_events)
  have b: "e_id ?ev = sample_id" by (simp add: sample_event_def)
  have c: "i_user (click ''u'') \<in> p_id ` set (participants ?ev)" by (simp add: click_def)
  have d: "?rest = filter (\<lambda>p. p_id p \<noteq> i_user (click ''u'')) (participants ?ev)"
    by (simp add: click_def)
  have e: "''tank'' \<in> set classRoles" by (simp add: class_facts)
  have f: "\<not> invalidClass ''tank'' ''Paladin''" by (simp add: class_facts)
  have g: "length ?rest < 8" by simp
  have h: "\<not> (groupType ?ev = ''standard'' \<and> limitReached ''tank'' (roleCount ''tank'' ?rest))"
    by (simp add: limitReached_def ROLE_LIMITS_def roleCount_def)
  from C7_withdraw_then_join_appends [OF a b sample_id_form c d e f g h,
         where en = env_open and ?t1.0 = 8 and ?t2.0 = 9 and ?en0.0 = env_open
           and reqs = "[(0, CreateEvent (sample_creation None)),
        (0, Button (classButtonId ''tank'' ''Paladin'' sample_id) (click ''u'')),
        (1, Button (classButtonId ''healer'' ''Sage'' sample_id) (click ''v''))]"]
    sample_runs(2)
  obtain s1 s2 where
    w: "handleButtonInteraction env_open 8 (eventButtonId ''withdraw'' sample_id) (click ''u'')
          sample_two = (Inr Withdrawn, s1)"
    and r1: "map_option participants (events s1 sample_id) = Some ?rest"
    and j: "handleButtonInteraction env_open 9 (classButtonId ''tank'' ''Paladin'' sample_id)
          (click ''u'') s1 = (Inr Joined, s2)"
    and r: "map_option participants (events s2 sample_id)
          = Some (?rest @ [\<lparr>p_id = i_user (click ''u''), p_role = ''tank'',
                            p_class = Some ''Paladin''\<rparr>])"
    and k: "handleButtonInteraction env_open 9 (roleButtonId ''blue_mage'' sample_id)
          (click ''u'') s1 = (Inl NotFound, s1)"
    by blast
  from r1 have r1': "map_option (map p_id \<circ> participants) (events s1 sample_id) = Some [''v'']"
    by (cases "events s1 sample_id") auto
  from r have r': "map_option (map p_id \<circ> participants) (events s2 sample_id)
                     = Some [''v'', ''u'']"
    by (cases "events s2 sample_id") (auto simp: click_def)
  have "map_option (map p_id \<circ> participants) (events sample_two sample_id) = Some [''u'', ''v'']"
    by (simp add: a)
  with w r1' j r' k show ?thesis unfolding sample_ids by blast
qed

lemma roleChangeClass_parsed:
  assumes "events s eid = Some ev" and "e_id ev = eid"
      and "find (\<lambda>p. p_id p = i_user ia) (participants ev) = Some p"
      and "role \<in> set classRoles" and "\<not> invalidClass role cls"
  shows "handleParsed en now
           \<lparr>b_action = ''rolechangeclass'', b_eventId = eid, b_role = Some role,
            b_className = Some cls\<rparr> ia s =
     (if groupType ev = ''standard'' \<and>
         limitReached role (length (filter (\<lambda>q. p_role q = role \<and> p_id q \<noteq> i_user ia)
                                      (participants ev)))
      then (Inl RoleFull, s)
      else (Inr RoleUpdated,
            notify en now eid ''role_change'' (i_user ia)
              (assignRole ev (i_user ia) role (Some cls) s)))"
  using assms
  by (simp add: parsed_branch [OF assms(1)] roleChangeClassAction_def Let_def)

lemma roleChange_parsed:
  assumes "events s eid = Some ev" and "e_id ev = eid"
      and "find (\<lambda>p. p_id p = i_user ia) (participants ev) = Some p"
      and "role \<in> set validRoles" and "p_role p \<noteq> role"
  shows "handleParsed en now
           \<lparr>b_action = ''rolechange'', b_eventId = eid, b_role = Some role,
            b_className = None\<rparr> ia s =
     (if groupType ev = ''standard'' \<and>
         limitReached role (length (filter (\<lambda>q. p_role q = role \<and> p_id q \<noteq> i_user ia)
                                      (participants ev)))
      then (Inl RoleFull, s)
      else if role = ''blue_mage''
      then (Inr RoleUpdated,
            notify en now eid ''role_change'' (i_user ia)
              (assignRole ev (i_user ia) role (Some ''Blue Mage'') s))
      else (Inr PromptClassChange, s))"
proof (cases "role = ''blue_mage''")
  case True
  have "noClasses ''blue_mage''" by (simp add: noClasses_def)
  with True assms show ?thesis
    by (simp add: parsed_branch [OF assms(1)] roleChangeAction_def Let_def)
next
  case False
  with assms(4) have "role \<in> set classRoles" by (rule valid_plain_role)
  then have "hasRows (createRoleChangeClassButtons role eid)" "\<not> noClasses role"
    by (simp_all add: hasRows_classRoles classRoles_valid)
  with False assms show ?thesis
    by (simp add: parsed_branch [OF assms(1)] roleChangeAction_def Let_def)
qed



subsection \<open>Capacity and role quotas\<close>

text \<open>
  Claim C1 says that the roster never exceeds the capacity of the group type: 8 for a
  standard or non-standard group and 4 for a light party, a fifth join on a light party
  being refused with \<open>EventFull\<close>. The handlers compare the roster length with 8 whatever
  the group type. So every roster of every run has at most 8 entries, but a light party
  is not held to 4: on a light-party event with fewer than 8 participants, the
  \<open>participate\<close> button prompts for a role, the role button prompts for a class, and a
  join with a valid role and class goes through and appends the user. The join is stated
  for the handler once the custom id is parsed, and for the press of the class button
  of an event whose id has the generated form.
\<close>

theorem C1_light_party_not_capped_at_four:
  "(\<forall>eid ev. events (run en reqs init) eid = Some ev \<longrightarrow> length (participants ev) \<le> 8)
   \<and> (events s eid = Some ev \<and> e_id ev = eid \<and> groupType ev = ''light_party''
        \<and> i_user ia \<notin> p_id ` set (participants ev) \<and> length (participants ev) < 8
        \<and> role \<in> set classRoles \<and> \<not> invalidClass role cls \<longrightarrow>
        handleButtonInteraction en now (eventButtonId ''participate'' eid) ia s
          = (Inr PromptRole, s)
        \<and> handleButtonInteraction en now (roleButtonId role eid) ia s = (Inr PromptClass, s)
        \<and> (\<exists>s'. handleParsed en now
                   \<lparr>b_action = ''class'', b_eventId = eid, b_role = Some role,
                    b_className = Some cls\<rparr> ia s = (Inr Joined, s')
              \<and> events s' = (events s)(eid := Some (ev\<lparr>participants :=
                   participants ev @ [\<lparr>p_id = i_user ia, p_role = role,
                                       p_class = Some cls\<rparr>]\<rparr>)))
        \<and> (startsWith eid ''event_'' \<longrightarrow>
             (\<exists>s'. handleButtonInteraction en now (classButtonId role cls eid) ia s
                      = (Inr Joined, s')
              \<and> events s' = (events s)(eid := Some (ev\<lparr>participants :=
                   participants ev @ [\<lparr>p_id = i_user ia, p_role = role,
                                       p_class = Some cls\<rparr>]\<rparr>)))))"
proof -
  have 1: "\<forall>eid ev. events (run en reqs init) eid = Some ev \<longrightarrow> length (participants ev) \<le> 8"
  proof (intro allI impI)
    fix eid ev assume "events (run en reqs init) eid = Some ev"
    then have "eventOk eid ev" by (rule run_event)
    then show "length (participants ev) \<le> 8" by (simp add: eventOk_def)
  qed
  have 2: "events s eid = Some ev \<and> e_id ev = eid \<and> groupType ev = ''light_party''
        \<and> i_user ia \<notin> p_id ` set (participants ev) \<and> length (participants ev) < 8
        \<and> role \<in> set classRoles \<and> \<not> invalidClass role cls \<longrightarrow>
        handleButtonInteraction en now (eventButtonId ''participate'' eid) ia s
          = (Inr PromptRole, s)
        \<and> handleButtonInteraction en now (roleButtonId role eid) ia s = (Inr PromptClass, s)
        \<and> (\<exists>s'. handleParsed en now
                   \<lparr>b_action = ''class'', b_eventId = eid, b_role = Some role,
                    b_className = Some cls\<rparr> ia s = (Inr Joined, s')
              \<and> events s' = (events s)(eid := Some (ev\<lparr>participants :=
                   participants ev @ [\<lparr>p_id = i_user ia, p_role = role,
                                       p_class = Some cls\<rparr>]\<rparr>)))
        \<and> (startsWith eid ''event_'' \<longrightarrow>
             (\<exists>s'. handleButtonInteraction en now (classButtonId role cls eid) ia s
                      = (Inr Joined, s')
              \<and> events s' = (events s)(eid := Some (ev\<lparr>participants :=
                   participants ev @ [\<lparr>p_id = i_user ia, p_role = role,
                                       p_class = Some cls\<rparr>]\<rparr>))))"
  proof
    assume a: "events s eid = Some ev \<and> e_id ev = eid \<and> groupType ev = ''light_party''
        \<and> i_user ia \<notin> p_id ` set (participants ev) \<and> length (participants ev) < 8
        \<and> role \<in> set classRoles \<and> \<not> invalidClass role cls"
    then have ev: "events s eid = Some ev" by simp
    from a have p: "handleButtonInteraction en now (eventButtonId ''participate'' eid) ia s
          = (Inr PromptRole, s)"
      by (simp add: handle_event_button parsed_branch [OF ev] participateAction_def
            participating_iff)
    from a have r: "handleButtonInteraction en now (roleButtonId role eid) ia s
          = (Inr PromptClass, s)"
      by (simp add: handle_role_button classRoles_valid parsed_branch [OF ev] roleAction_def
            participating_iff hasRows_classRoles Let_def)
    from a have q: "\<not> (groupType ev = ''standard''
                    \<and> limitReached role (roleCount role (participants ev)))" by simp
    from a q class_join_parsed [of s eid ev ia role cls en now]
    have j: "\<exists>s'. handleParsed en now
                   \<lparr>b_action = ''class'', b_eventId = eid, b_role = Some role,
                    b_className = Some cls\<rparr> ia s = (Inr Joined, s')
              \<and> events s' = (events s)(eid := Some (ev\<lparr>participants :=
                   participants ev @ [\<lparr>p_id = i_user ia, p_role = role,
                                       p_class = Some cls\<rparr>]\<rparr>))"
      by blast
    from a q class_join_result [of s eid ev ia role cls en now]
    have k: "startsWith eid ''event_'' \<longrightarrow>
             (\<exists>s'. handleButtonInteraction en now (classButtonId role cls eid) ia s
                      = (Inr Joined, s')
              \<and> events s' = (events s)(eid := Some (ev\<lparr>participants :=
                   participants ev @ [\<lparr>p_id = i_user ia, p_role = role,
                                       p_class = Some cls\<rparr>]\<rparr>)))"
      by blast
    from p r j k
    show "handleButtonInteraction en now (eventButtonId ''participate'' eid) ia s
          = (Inr PromptRole, s)
        \<and> handleButtonInteraction en now (roleButtonId role eid) ia s = (Inr PromptClass, s)
        \<and> (\<exists>s'. handleParsed en now
                   \<lparr>b_action = ''class'', b_eventId = eid, b_role = Some role,
                    b_className = Some cls\<rparr> ia s = (Inr Joined, s')
              \<and> events s' = (events s)(eid := Some (ev\<lparr>participants :=
                   participants ev @ [\<lparr>p_id = i_user ia, p_role = role,
                                       p_class = Some cls\<rparr>]\<rparr>)))
        \<and> (startsWith eid ''event_'' \<longrightarrow>
             (\<exists>s'. handleButtonInteraction en now (classButtonId role cls eid) ia s
                      = (Inr Joined, s')
              \<and> events s' = (events s)(eid := Some (ev\<lparr>participants :=
                   participants ev @ [\<lparr>p_id = i_user ia, p_role = role,
                                       p_class = Some cls\<rparr>]\<rparr>))))"
      by blast
  qed
  from 1 2 show ?thesis by blast
qed

text \<open>A light party of four; \<open>e\<close> presses the class button \<open>Ninja\<close> of the DPS prompt and
  the roster has five entries.\<close>

theorem C1_light_party_not_capped_at_four_witness:
  "map_option groupType (events sample_light sample_id) = Some ''light_party''
   \<and> map_option (length \<circ> participants) (events sample_light sample_id) = Some 4
   \<and> fst (handleButtonInteraction env_open 5 ''class_dps_Ninja_event_0_k3x9q'' (click ''e'')
            sample_light) = Inr Joined
   \<and> map_option (length \<circ> participants)
       (events (snd (handleButtonInteraction env_open 5 ''class_dps_Ninja_event_0_k3x9q''
                       (click ''e'') sample_light)) sample_id) = Some 5"
proof -
  let ?ps = "[\<lparr>p_id = ''a'', p_role = ''dps'', p_class = Some ''Black Mage''\<rparr>,
       \<lparr>p_id = ''b'', p_role = ''tank'', p_class = Some ''Paladin''\<rparr>,
       \<lparr>p_id = ''c'', p_role = ''healer'', p_class = Some ''Sage''\<rparr>,
       \<lparr>p_id = ''d'', p_role = ''dps'', p_class = Some ''Monk''\<rparr>]"
  let ?ev = "sample_event\<lparr>groupType := ''light_party'', participants := ?ps\<rparr>"
  have a: "events sample_light sample_id = Some ?ev" by (rule sample_light_events)
  have b: "e_id ?ev = sample_id \<and> groupType ?ev = ''light_party''
        \<and> i_user (click ''e'') \<notin> p_id ` set (participants ?ev)
        \<and> length (participants ?ev) < 8
        \<and> ''dps'' \<in> set classRoles \<and> \<not> invalidClass ''dps'' ''Ninja''"
    by (simp add: sample_event_def click_def class_facts)
  from C1_light_party_not_capped_at_four
         [of env_open "[]" sample_light sample_id ?ev "click ''e''" "''dps''" "''Ninja''" 5]
       a b sample_id_form
  obtain s' where
    j: "handleButtonInteraction env_open 5 (classButtonId ''dps'' ''Ninja'' sample_id)
          (click ''e'') sample_light = (Inr Joined, s')"
    and e: "events s' = (events sample_light)(sample_id := Some (?ev\<lparr>participants :=
              participants ?ev @ [\<lparr>p_id = i_user (click ''e''), p_role = ''dps'',
                                   p_class = Some ''Ninja''\<rparr>]\<rparr>))"
    by blast
  from j e a show ?thesis unfolding sample_ids by simp
qed

text \<open>The answer \<open>RoleFull\<close> comes from a quota check only: of a standard event, and
  for a role that the parser has read and that is one of \<open>tank\<close>, \<open>healer\<close>, \<open>dps\<close>.\<close>

lemma RoleFull_branches:
  "fst (roleAction en now eid role ia ev s) = Inl RoleFull \<Longrightarrow>
     groupType ev = ''standard'' \<and> role \<in> set classRoles"
  "fst (classAction en now eid role cls ia ev s) = Inl RoleFull \<Longrightarrow>
     groupType ev = ''standard'' \<and> role \<in> set classRoles"
  "fst (roleChangeAction en now eid role ia ev s) = Inl RoleFull \<Longrightarrow>
     groupType ev = ''standard'' \<and> role \<in> set classRoles"
  "fst (roleChangeClassAction en now eid role cls ia ev s) = Inl RoleFull \<Longrightarrow>
     groupType ev = ''standard'' \<and> role \<in> set classRoles"
  "fst (withdrawAction en now eid ia ev s) \<noteq> Inl RoleFull"
  "fst (deleteAction en now eid ia ev s) \<noteq> Inl RoleFull"
  "fst (participateAction ia ev s) \<noteq> Inl RoleFull"
  "fst (changeRoleAction ia ev s) \<noteq> Inl RoleFull"
  "fst (changeTimeAction ia ev s) \<noteq> Inl RoleFull"
  by (auto simp: roleAction_def classAction_def roleChangeAction_def roleChangeClassAction_def
        withdrawAction_def deleteAction_def participateAction_def changeRoleAction_def
        changeTimeAction_def Let_def
        split: if_splits option.splits dest: limit_role)

lemma RoleFull_parsed:
  assumes "fst (handleParsed en now p ia s) = Inl RoleFull"
  shows "\<exists>ev r. events s (b_eventId p) = Some ev \<and> groupType ev = ''standard''
           \<and> b_role p = Some r \<and> r \<in> set classRoles"
proof (cases "events s (b_eventId p)")
  case None
  with assms show ?thesis by (simp add: parsed_missing)
next
  case (Some ev)
  with assms show ?thesis
    by (auto simp: handleParsed_def getEventFromRedis_def Let_def RoleFull_branches(5-9)
          split: if_splits option.splits dest: RoleFull_branches(1-4))
qed

lemma RoleFull_press:
  assumes "fst (handleButtonInteraction en now customId ia s) = Inl RoleFull"
  shows "\<exists>p ev r. parseButtonInteraction customId = Inr p
           \<and> events s (b_eventId p) = Some ev \<and> groupType ev = ''standard''
           \<and> b_role p = Some r \<and> r \<in> set classRoles"
proof (cases "parseButtonInteraction customId")
  case (Inl m)
  with assms show ?thesis
    by (simp add: handleButtonInteraction_def Let_def split: if_splits)
next
  case (Inr p)
  with assms have "fst (handleParsed en now p ia s) = Inl RoleFull"
    by (simp add: handleButtonInteraction_def Let_def split: if_splits)
  from RoleFull_parsed [OF this] Inr show ?thesis by blast
qed

lemma join_at_limit:
  assumes ev: "events s eid = Some ev" and st: "groupType ev = ''standard''"
      and lim: "limitReached role (roleCount role (participants ev))"
  shows "handleButtonInteraction en now (roleButtonId role eid) ia s =
           (Inl (if i_user ia \<in> p_id ` set (participants ev) then AlreadyParticipating
                 else if 8 \<le> length (participants ev) then EventFull
                 else RoleFull), s)"
    and "\<not> invalidClass role cls \<Longrightarrow> startsWith eid ''event_'' \<Longrightarrow>
         handleButtonInteraction en now (classButtonId role cls eid) ia s =
           (Inl (if i_user ia \<in> p_id ` set (participants ev) then AlreadyParticipating
                 else if 8 \<le> length (participants ev) then EventFull
                 else RoleFull), s)"
proof -
  from lim have r: "role \<in> set classRoles" by (rule limit_role)
  from st lim r show "handleButtonInteraction en now (roleButtonId role eid) ia s =
           (Inl (if i_user ia \<in> p_id ` set (participants ev) then AlreadyParticipating
                 else if 8 \<le> length (participants ev) then EventFull
                 else RoleFull), s)"
    by (simp add: handle_role_button classRoles_valid parsed_branch [OF ev] roleAction_def
          Let_def participating_iff roleCount_def)
  assume "\<not> invalidClass role cls" "startsWith eid ''event_''"
  with st lim r show "handleButtonInteraction en now (classButtonId role cls eid) ia s =
           (Inl (if i_user ia \<in> p_id ` set (participants ev) then AlreadyParticipating
                 else if 8 \<le> length (participants ev) then EventFull
                 else RoleFull), s)"
    by (simp add: handle_class_button parsed_branch [OF ev] classAction_def
          Let_def participating_iff roleCount_def)
qed

text \<open>Where the quotas hold, a role that the other participants fill is not the role
  of the requester.\<close>

lemma others_at_limit:
  assumes q: "quotasHold ps" and p: "p \<in> set ps" "p_id p = u"
      and lim: "limitReached role (length (filter (\<lambda>q. p_role q = role \<and> p_id q \<noteq> u) ps))"
  shows "p_role p \<noteq> role"
proof
  assume "p_role p = role"
  from others_less [OF p this]
  have "length (filter (\<lambda>q. p_role q = role \<and> p_id q \<noteq> u) ps) < roleCount role ps" .
  with lim q show False by (auto simp: limit_cases quotasHold_def)
qed

lemma change_at_limit:
  assumes ev: "events s eid = Some ev" and ok: "eventOk eid ev"
      and st: "groupType ev = ''standard''"
      and u: "i_user ia \<in> p_id ` set (participants ev)"
      and lim: "limitReached role
                  (length (filter (\<lambda>q. p_role q = role \<and> p_id q \<noteq> i_user ia) (participants ev)))"
  shows "handleButtonInteraction en now (roleChangeButtonId role eid) ia s = (Inl RoleFull, s)"
    and "\<not> invalidClass role cls \<Longrightarrow>
         handleButtonInteraction en now (roleChangeClassButtonId role cls eid) ia s
           = (Inl RoleFull, s)"
proof -
  from lim have r: "role \<in> set classRoles" by (rule limit_role)
  from find_listed [OF u] obtain p where
    f: "find (\<lambda>p. p_id p = i_user ia) (participants ev) = Some p" by blast
  from find_Some_id [OF f] have p: "p \<in> set (participants ev)" "p_id p = i_user ia" by simp_all
  from ok st have "quotasHold (participants ev)" by (simp add: eventOk_def)
  from others_at_limit [OF this p lim] have n: "p_role p \<noteq> role" .
  from ok have form: "startsWith eid ''event_''" by (simp add: eventOk_def)
  from st lim r f n
  show "handleButtonInteraction en now (roleChangeButtonId role eid) ia s = (Inl RoleFull, s)"
    by (simp add: handle_role_button classRoles_valid parsed_branch [OF ev]
          roleChangeAction_def Let_def)
  assume "\<not> invalidClass role cls"
  with st lim r f form
  show "handleButtonInteraction en now (roleChangeClassButtonId role cls eid) ia s
           = (Inl RoleFull, s)"
    by (simp add: handle_class_button parsed_branch [OF ev] roleChangeClassAction_def Let_def)
qed

text \<open>
  Claim C4, as stated, fails on its last clause: a join whose role quota is reached is
  not always refused with \<open>RoleFull\<close>. The handlers test capacity before the quota, so
  on a standard event with its eight slots taken a join as tank, by the class button
  \<open>class_tank_Paladin_event_0_k3x9q\<close>, is refused with \<open>EventFull\<close>.
\<close>

theorem C4_full_event_rejects_with_EventFull:
  "sample_full = run env_open standard_requests init
   \<and> map_option groupType (events sample_full sample_id) = Some ''standard''
   \<and> map_option (roleCount ''tank'' \<circ> participants) (events sample_full sample_id) = Some 2
   \<and> limitReached ''tank'' 2
   \<and> handleButtonInteraction env_open 9 ''class_tank_Paladin_event_0_k3x9q'' (click ''x'')
        sample_full = (Inl EventFull, sample_full)
   \<and> handleButtonInteraction env_open 9 ''class_tank_Paladin_event_0_k3x9q'' (click ''x'')
        sample_full \<noteq> (Inl RoleFull, sample_full)"
proof -
  have l: "limitReached ''tank'' 2" by (simp add: limit_cases)
  have "handleButtonInteraction env_open 9 (classButtonId ''tank'' ''Paladin'' sample_id)
          (click ''x'') sample_full = (Inl EventFull, sample_full)"
    by (simp add: button_defs parsed_branch [OF sample_full_events]
          classAction_def Let_def participating_def click_def)
  then have e: "handleButtonInteraction env_open 9 ''class_tank_Paladin_event_0_k3x9q''
          (click ''x'') sample_full = (Inl EventFull, sample_full)"
    unfolding sample_ids .
  have r: "sample_full = run env_open standard_requests init" by (rule sample_full_def)
  have g: "map_option groupType (events sample_full sample_id) = Some ''standard''"
    by (simp add: sample_full_events sample_event_def)
  have c: "map_option (roleCount ''tank'' \<circ> participants) (events sample_full sample_id)
             = Some 2"
    by (simp add: sample_full_events roleCount_def)
  from e have n: "handleButtonInteraction env_open 9 ''class_tank_Paladin_event_0_k3x9q''
          (click ''x'') sample_full \<noteq> (Inl RoleFull, sample_full)"
    by simp
  from r g c l e n show ?thesis by blast
qed

text \<open>
  Claim C4, amended. Let \<open>s\<close> be a state reached from the empty store by any sequence of
  operations, and \<open>ev\<close> an event stored in it under \<open>eid\<close>.
  \<^item> If \<open>ev\<close> is a standard group, it has at most 2 tanks, 2 healers and 4 DPS.
  \<^item> No other cap by role exists. Whatever button is pressed, the answer \<open>RoleFull\<close> is
    given only for a standard event and a role among \<open>tank\<close>, \<open>healer\<close>, \<open>dps\<close>. On
    an event of another group type, a join by a class button (user not listed, fewer
    than 8 participants) succeeds and a role change by a class button of the role-change
    prompt (user listed) succeeds, however many participants hold the role.
  \<^item> On a standard event with the quota of a role reached, a join is rejected: the press
    of the role button of that role, and the press of a class button of that role (a
    class of that role), leave the state unchanged and are answered
    \<open>AlreadyParticipating\<close> if the user is listed, otherwise \<open>EventFull\<close> if the roster
    has 8 entries, otherwise \<open>RoleFull\<close>.
  \<^item> On a standard event, a role change of a listed participant to a role whose quota
    is reached by the other participants is rejected with \<open>RoleFull\<close>: the press of the
    role button of the role-change prompt, and the press of a class button of that role
    (a class of that role) in the role-change prompt, leave the state unchanged and are
    answered \<open>RoleFull\<close>.
\<close>

theorem C4_standard_quotas:
  assumes run: "s = run en0 reqs init" and ev: "events s eid = Some ev"
      and joinError: "joinError =
            (if i_user ia \<in> p_id ` set (participants ev) then AlreadyParticipating
             else if 8 \<le> length (participants ev) then EventFull
             else RoleFull)"
      and others: "others = length (filter (\<lambda>q. p_role q = role \<and> p_id q \<noteq> i_user ia)
                                      (participants ev))"
  shows "(groupType ev = ''standard'' \<longrightarrow>
            roleCount ''tank'' (participants ev) \<le> 2
            \<and> roleCount ''healer'' (participants ev) \<le> 2
            \<and> roleCount ''dps'' (participants ev) \<le> 4)
   \<and> (\<forall>customId. fst (handleButtonInteraction en now customId ia s) = Inl RoleFull \<longrightarrow>
         (\<exists>p ev' r. parseButtonInteraction customId = Inr p
            \<and> events s (b_eventId p) = Some ev' \<and> groupType ev' = ''standard''
            \<and> b_role p = Some r \<and> r \<in> set classRoles))
   \<and> (groupType ev \<noteq> ''standard'' \<and> role \<in> set classRoles \<and> \<not> invalidClass role cls \<longrightarrow>
        (i_user ia \<notin> p_id ` set (participants ev) \<and> length (participants ev) < 8 \<longrightarrow>
           fst (handleButtonInteraction en now (classButtonId role cls eid) ia s) = Inr Joined)
        \<and> (i_user ia \<in> p_id ` set (participants ev) \<longrightarrow>
           fst (handleButtonInteraction en now (roleChangeClassButtonId role cls eid) ia s)
             = Inr RoleUpdated))
   \<and> (groupType ev = ''standard'' \<and> limitReached role (roleCount role (participants ev)) \<longrightarrow>
        handleButtonInteraction en now (roleButtonId role eid) ia s = (Inl joinError, s)
        \<and> (\<not> invalidClass role cls \<longrightarrow>
             handleButtonInteraction en now (classButtonId role cls eid) ia s
               = (Inl joinError, s)))
   \<and> (groupType ev = ''standard'' \<and> i_user ia \<in> p_id ` set (participants ev)
        \<and> limitReached role others \<longrightarrow>
        handleButtonInteraction en now (roleChangeButtonId role eid) ia s = (Inl RoleFull, s)
        \<and> (\<not> invalidClass role cls \<longrightarrow>
             handleButtonInteraction en now (roleChangeClassButtonId role cls eid) ia s
               = (Inl RoleFull, s)))"
proof -
  from ev have ok: "eventOk eid ev" unfolding run by (rule run_event)
  then have form: "startsWith eid ''event_''" by (simp add: eventOk_def)
  have 1: "groupType ev = ''standard'' \<longrightarrow>
            roleCount ''tank'' (participants ev) \<le> 2
            \<and> roleCount ''healer'' (participants ev) \<le> 2
            \<and> roleCount ''dps'' (participants ev) \<le> 4"
    using ok by (auto simp: eventOk_def quotasHold_def)
  from ok have own: "e_id ev = eid" by (simp add: eventOk_def)
  have 2: "groupType ev \<noteq> ''standard'' \<and> role \<in> set classRoles \<and> \<not> invalidClass role cls
        \<longrightarrow>
        (i_user ia \<notin> p_id ` set (participants ev) \<and> length (participants ev) < 8 \<longrightarrow>
           fst (handleButtonInteraction en now (classButtonId role cls eid) ia s) = Inr Joined)
        \<and> (i_user ia \<in> p_id ` set (participants ev) \<longrightarrow>
           fst (handleButtonInteraction en now (roleChangeClassButtonId role cls eid) ia s)
             = Inr RoleUpdated)"
  proof (intro impI conjI)
    assume a: "groupType ev \<noteq> ''standard'' \<and> role \<in> set classRoles \<and> \<not> invalidClass role cls"
    {
      assume "i_user ia \<notin> p_id ` set (participants ev) \<and> length (participants ev) < 8"
      with a class_join_result [OF ev own, of ia role cls en now] form
      show "fst (handleButtonInteraction en now (classButtonId role cls eid) ia s) = Inr Joined"
        by auto
    }
    {
      assume "i_user ia \<in> p_id ` set (participants ev)"
      from find_listed [OF this] obtain p where
        "find (\<lambda>p. p_id p = i_user ia) (participants ev) = Some p" by blast
      with a form
      show "fst (handleButtonInteraction en now (roleChangeClassButtonId role cls eid) ia s)
             = Inr RoleUpdated"
        by (simp add: handle_class_button parsed_branch [OF ev] roleChangeClassAction_def
              Let_def)
    }
  qed
  have 3: "\<forall>customId. fst (handleButtonInteraction en now customId ia s) = Inl RoleFull \<longrightarrow>
         (\<exists>p ev' r. parseButtonInteraction customId = Inr p
            \<and> events s (b_eventId p) = Some ev' \<and> groupType ev' = ''standard''
            \<and> b_role p = Some r \<and> r \<in> set classRoles)"
    using RoleFull_press [of en now _ ia s] by blast
  have 4: "groupType ev = ''standard'' \<and> limitReached role (roleCount role (participants ev))
        \<longrightarrow>
        handleButtonInteraction en now (roleButtonId role eid) ia s = (Inl joinError, s)
        \<and> (\<not> invalidClass role cls \<longrightarrow>
             handleButtonInteraction en now (classButtonId role cls eid) ia s
               = (Inl joinError, s))"
    using join_at_limit [OF ev] form unfolding joinError by blast
  have 5: "groupType ev = ''standard'' \<and> i_user ia \<in> p_id ` set (participants ev)
        \<and> limitReached role others \<longrightarrow>
        handleButtonInteraction en now (roleChangeButtonId role eid) ia s = (Inl RoleFull, s)
        \<and> (\<not> invalidClass role cls \<longrightarrow>
             handleButtonInteraction en now (roleChangeClassButtonId role cls eid) ia s
               = (Inl RoleFull, s))"
    using change_at_limit [OF ev ok] unfolding others by blast
  from 1 3 2 4 5 show ?thesis by blast
qed

text \<open>The standard event with two tanks: a third join as tank is refused with
  \<open>RoleFull\<close> and a join as healer goes through. In the full standard group the quotas
  hold, \<open>d1\<close> asking to become a tank is refused with \<open>RoleFull\<close>, and a newcomer
  asking for a tank slot is refused with \<open>EventFull\<close>.\<close>

theorem C4_standard_quotas_witness:
  "(case events sample_full sample_id of
      None \<Rightarrow> False
    | Some ev \<Rightarrow> groupType ev = ''standard''
        \<and> roleCount ''tank'' (participants ev) \<le> 2
        \<and> roleCount ''healer'' (participants ev) \<le> 2
        \<and> roleCount ''dps'' (participants ev) \<le> 4)
   \<and> handleButtonInteraction env_open 3 ''class_tank_Gunbreaker_event_0_k3x9q'' (click ''x'')
        sample_tanks = (Inl RoleFull, sample_tanks)
   \<and> fst (handleButtonInteraction env_open 3 (classButtonId ''healer'' ''Sage'' sample_id)
            (click ''x'') sample_tanks) = Inr Joined
   \<and> handleButtonInteraction env_open 9 ''rolechange_tank_event_0_k3x9q'' (click ''d1'')
        sample_full = (Inl RoleFull, sample_full)
   \<and> handleButtonInteraction env_open 9 ''rolechangeclass_tank_Paladin_event_0_k3x9q''
        (click ''d1'') sample_full = (Inl RoleFull, sample_full)
   \<and> handleButtonInteraction env_open 9 ''class_tank_Gunbreaker_event_0_k3x9q'' (click ''x'')
        sample_full = (Inl EventFull, sample_full)"
proof -
  let ?full = "[\<lparr>p_id = ''t1'', p_role = ''tank'', p_class = Some ''Paladin''\<rparr>,
       \<lparr>p_id = ''t2'', p_role = ''tank'', p_class = Some ''Dark Knight''\<rparr>,
       \<lparr>p_id = ''h1'', p_role = ''healer'', p_class = Some ''Sage''\<rparr>,
       \<lparr>p_id = ''h2'', p_role = ''healer'', p_class = Some ''Scholar''\<rparr>,
       \<lparr>p_id = ''d1'', p_role = ''dps'', p_class = Some ''Monk''\<rparr>,
       \<lparr>p_id = ''d2'', p_role = ''dps'', p_class = Some ''Ninja''\<rparr>,
       \<lparr>p_id = ''d3'', p_role = ''dps'', p_class = Some ''Bard''\<rparr>,
       \<lparr>p_id = ''d4'', p_role = ''dps'', p_class = Some ''Viper''\<rparr>]"
  let ?tanks = "[\<lparr>p_id = ''t1'', p_role = ''tank'', p_class = Some ''Paladin''\<rparr>,
       \<lparr>p_id = ''t2'', p_role = ''tank'', p_class = Some ''Dark Knight''\<rparr>]"
  let ?evf = "sample_event\<lparr>participants := ?full\<rparr>"
  let ?evt = "sample_event\<lparr>participants := ?tanks\<rparr>"
  have f: "events sample_full sample_id = Some ?evf" by (rule sample_full_events)
  have t: "events sample_tanks sample_id = Some ?evt" by (rule sample_tanks_events)
  have st: "groupType ?evf = ''standard''" "groupType ?evt = ''standard''"
    by (simp_all add: sample_event_def)
  have lt: "limitReached ''tank'' (roleCount ''tank'' (participants ?evt))"
           "limitReached ''tank'' (roleCount ''tank'' (participants ?evf))"
    by (simp_all add: limit_cases roleCount_def)
  have x: "\<not> invalidClass ''tank'' ''Gunbreaker'' \<and> \<not> invalidClass ''tank'' ''Paladin''
        \<and> i_user (click ''x'') \<notin> p_id ` set (participants ?evt)
        \<and> \<not> 8 \<le> length (participants ?evt)
        \<and> i_user (click ''x'') \<notin> p_id ` set (participants ?evf)
        \<and> 8 \<le> length (participants ?evf)
        \<and> i_user (click ''d1'') \<in> p_id ` set (participants ?evf)"
    by (simp add: class_facts click_def)
  have lo: "limitReached ''tank''
              (length (filter (\<lambda>q. p_role q = ''tank'' \<and> p_id q \<noteq> i_user (click ''d1''))
                         (participants ?evf)))"
    by (simp add: limit_cases click_def)
  note T1 = C4_standard_quotas [OF sample_tanks_def t refl refl,
      where role = "''tank''" and ia = "click ''x''" and en = env_open and now = 3
        and cls = "''Gunbreaker''"]
  note T2 = C4_standard_quotas [OF sample_full_def f refl refl,
      where role = "''tank''" and ia = "click ''d1''" and en = env_open and now = 9
        and cls = "''Paladin''"]
  note T3 = C4_standard_quotas [OF sample_full_def f refl refl,
      where role = "''tank''" and ia = "click ''x''" and en = env_open and now = 9
        and cls = "''Gunbreaker''"]
  from T2 st have a: "roleCount ''tank'' (participants ?evf) \<le> 2
        \<and> roleCount ''healer'' (participants ?evf) \<le> 2
        \<and> roleCount ''dps'' (participants ?evf) \<le> 4"
    by blast
  from T1 st lt x
  have b: "handleButtonInteraction env_open 3 (classButtonId ''tank'' ''Gunbreaker'' sample_id)
        (click ''x'') sample_tanks = (Inl RoleFull, sample_tanks)"
    by simp
  have c: "fst (handleButtonInteraction env_open 3 (classButtonId ''healer'' ''Sage'' sample_id)
            (click ''x'') sample_tanks) = Inr Joined"
    by (simp add: button_defs parsed_branch [OF t] classAction_def Let_def
          participating_def click_def limit_cases)
  from T2 st x lo
  have d: "handleButtonInteraction env_open 9 (roleChangeButtonId ''tank'' sample_id)
             (click ''d1'') sample_full = (Inl RoleFull, sample_full)
         \<and> handleButtonInteraction env_open 9
             (roleChangeClassButtonId ''tank'' ''Paladin'' sample_id)
             (click ''d1'') sample_full = (Inl RoleFull, sample_full)"
    by simp
  from T3 st lt x
  have e: "handleButtonInteraction env_open 9 (classButtonId ''tank'' ''Gunbreaker'' sample_id)
        (click ''x'') sample_full = (Inl EventFull, sample_full)"
    by simp
  from a b c d e f st show ?thesis unfolding sample_ids by simp
qed

end
